theory Spec2Isabelle
  imports Main "HOL-Library.Word"
begin

unbundle bit_operations_syntax

section \<open>AIE stream switch driver (xaie\_ss.c): data model\<close>

text \<open>
  The C integer types of the driver: \<open>u8\<close>, \<open>u32\<close> and \<open>u64\<close> are unsigned and wrap
  around. A conversion to a narrower type keeps the low bits (\<open>ucast\<close>), a conversion
  to a wider one keeps the value (\<open>ucast\<close> as well).
\<close>

type_synonym u8 = "8 word"
type_synonym u32 = "32 word"
type_synonym u64 = "64 word"

text \<open>
  The return codes this file uses. \<open>XAIE_OK\<close> is the only success code. The enumeration
  lives in a header; only the four codes that occur in xaie\_ss.c are modelled.
\<close>

datatype AieRC = XAIE_OK | XAIE_INVALID_ARGS | XAIE_INVALID_TILE | XAIE_ERR_STREAM_PORT

text \<open>
  How a call ends: it returns a code, or it indexes a descriptor array past its end
  (undefined behaviour in C, made a value of its own here so that it cannot hide).
\<close>

datatype exec = Return AieRC | OutOfBounds

text \<open>
  \<open>XAIE_ENABLE\<close> and \<open>XAIE_DISABLE\<close>: the parameter documentation of the source says
  "1-Enable, 0-Disable".
\<close>

definition XAIE_ENABLE :: u8 where
  "XAIE_ENABLE = 1"

definition XAIE_DISABLE :: u8 where
  "XAIE_DISABLE = 0"

text \<open>The constants defined at the top of xaie\_ss.c.\<close>

definition XAIE_SS_MASTER_PORT_ARBITOR_LSB :: u32 where
  "XAIE_SS_MASTER_PORT_ARBITOR_LSB = 0"

definition XAIE_SS_MASTER_PORT_ARBITOR_MASK :: u32 where
  "XAIE_SS_MASTER_PORT_ARBITOR_MASK = 0x7"

definition XAIE_SS_MASTER_PORT_MSELEN_LSB :: u32 where
  "XAIE_SS_MASTER_PORT_MSELEN_LSB = 0x3"

definition XAIE_SS_MASTER_PORT_MSELEN_MASK :: u32 where
  "XAIE_SS_MASTER_PORT_MSELEN_MASK = 0x78"

definition XAIE_SS_ARBITOR_MAX :: u8 where
  "XAIE_SS_ARBITOR_MAX = 0x7"

definition XAIE_SS_MSEL_MAX :: u8 where
  "XAIE_SS_MSEL_MAX = 0x3"

definition XAIE_SS_MASK :: u8 where
  "XAIE_SS_MASK = 0x1F"

definition XAIE_SS_MSELEN_MAX :: u8 where
  "XAIE_SS_MSELEN_MAX = 0xF"

definition XAIE_PACKETID_MAX :: u8 where
  "XAIE_PACKETID_MAX = 0x1F"

text \<open>
  The structures of the header xaie\_ss.h, as xaie\_ss.c uses them: a register field
  (\<open>Lsb\<close>, \<open>Mask\<close>), a port entry (\<open>NumPorts\<close>, \<open>PortBaseAddr\<close>) and the stream switch
  module of one tile type. The header is not part of the sources at hand: the fields are
  those xaie\_ss.c reads, with the widths of the variables it assigns them to or compares
  them with. The three port tables are arrays indexed by the port type tag; they are
  lists here, so that their length is part of the model.
\<close>

record XAie_RegFldAttr =
  Lsb :: u32
  Mask :: u32

record XAie_StrmPort =
  NumPorts :: u8
  PortBaseAddr :: u32

record XAie_StrmMod =
  NumSlaveSlots :: u8
  SlvConfigBaseAddr :: u32
  PortOffset :: u32
  SlotOffsetPerPort :: u32
  SlotOffset :: u32
  MstrEn :: XAie_RegFldAttr
  MstrPktEn :: XAie_RegFldAttr
  DrpHdr :: XAie_RegFldAttr
  Config :: XAie_RegFldAttr
  SlvEn :: XAie_RegFldAttr
  SlvPktEn :: XAie_RegFldAttr
  SlotPktId :: XAie_RegFldAttr
  SlotMask :: XAie_RegFldAttr
  SlotEn :: XAie_RegFldAttr
  SlotMsel :: XAie_RegFldAttr
  SlotArbitor :: XAie_RegFldAttr
  MstrConfig :: "XAie_StrmPort list"
  SlvConfig :: "XAie_StrmPort list"
  SlvSlotConfig :: "XAie_StrmPort list"

record XAie_LocType =
  Row :: u8
  Col :: u8

record XAie_Packet =
  PktId :: u8
  PktType :: u8

text \<open>
  The device instance: \<open>StrmSw D t\<close> stands for \<open>D->DevProp.DevMod[t].StrmSw\<close>, the
  stream switch module of tile type \<open>t\<close>. A device pointer is an
  \<open>XAie_DevInst option\<close>, with \<open>None\<close> for \<open>XAIE_NULL\<close>.
\<close>

record XAie_DevInst =
  BaseAddr :: u64
  IsReady :: u8
  StrmSw :: "u8 \<Rightarrow> XAie_StrmMod"

text \<open>
  What xaie\_ss.c takes from other files of the driver, as parameters: the sentinel that
  ends the port type enumeration, the sentinel of the tile types, the value of
  \<open>IsReady\<close> of a ready device, and the two functions that resolve a location to a tile
  type and to a tile address (\<open>_XAie_GetTileTypefromLoc\<close>, \<open>_XAie_GetTileAddr\<close>). A port
  type tag is a \<open>u32\<close>: the enumeration has no negative member.
\<close>

record XAie_Globals =
  SS_PORT_TYPE_MAX :: u32
  XAIEGBL_TILE_TYPE_MAX :: u8
  XAIE_COMPONENT_IS_READY :: u8
  XAie_GetTileTypefromLoc :: "XAie_DevInst \<Rightarrow> XAie_LocType \<Rightarrow> u8"
  XAie_GetTileAddr :: "XAie_DevInst \<Rightarrow> u8 \<Rightarrow> u8 \<Rightarrow> u64"

text \<open>
  The register bus: the list of the writes issued so far, oldest first.
  \<open>XAieGbl_Write32\<close> appends one.
\<close>

type_synonym bus = "(u64 \<times> u32) list"

definition XAieGbl_Write32 :: "u64 \<Rightarrow> u32 \<Rightarrow> bus \<Rightarrow> bus" where
  "XAieGbl_Write32 Addr Val s = s @ [(Addr, Val)]"

section \<open>Bit fields\<close>

text \<open>
  Modelled from the spec: the macros \<open>XAie_SetField\<close> and \<open>XAie_GetField\<close> are defined in
  a header that is not part of the sources at hand. The specification gives them as
  "(value shifted into field.lsb) & field.mask" and "(word & field.mask) >> field.lsb",
  on 32-bit words. A shift by 32 or more, undefined in C, yields 0 here.
\<close>

definition XAie_SetField :: "u32 \<Rightarrow> u32 \<Rightarrow> u32 \<Rightarrow> u32" where
  "XAie_SetField Val L M = push_bit (unat L) Val AND M"

definition XAie_GetField :: "u32 \<Rightarrow> u32 \<Rightarrow> u32 \<Rightarrow> u32" where
  "XAie_GetField Val L M = drop_bit (unat L) (Val AND M)"

text \<open>
  Modelled from the spec: \<open>XAie_PacketInit\<close> is defined in a header that is not part of
  the sources at hand; the disable entry point "passes a zero packet" built with it.
\<close>

definition XAie_PacketInit :: "u8 \<Rightarrow> u8 \<Rightarrow> XAie_Packet" where
  "XAie_PacketInit PId PTy = \<lparr>PktId = PId, PktType = PTy\<rparr>"

section \<open>The port tables\<close>

text \<open>
  \<open>Tbl[PortType]\<close>: the entry of a port table under a port type tag, \<open>None\<close> when the
  tag is past the end of the table.
\<close>

definition StrmPort_at :: "XAie_StrmPort list \<Rightarrow> u32 \<Rightarrow> XAie_StrmPort option" where
  "StrmPort_at Tbl PortType =
     (if unat PortType < length Tbl then Some (Tbl ! unat PortType) else None)"

section \<open>Slave index and register builders\<close>

text \<open>
  \<open>_XAie_GetSlaveIdx\<close>. The index is stored through a \<open>u8\<close> pointer, which keeps the
  low eight bits of the 32-bit quotient.
\<close>

definition XAie_GetSlaveIdx :: "XAie_StrmMod \<Rightarrow> u32 \<Rightarrow> u8 \<Rightarrow> exec + u8" where
  "XAie_GetSlaveIdx StrmMod Slave PortNum =
     (let Base = SlvConfigBaseAddr StrmMod in
      case StrmPort_at (SlvConfig StrmMod) Slave of
        None \<Rightarrow> Inl OutOfBounds
      | Some PortPtr \<Rightarrow>
          if NumPorts PortPtr = 0 \<or> PortNum \<ge> NumPorts PortPtr
          then Inl (Return XAIE_ERR_STREAM_PORT)
          else
            let RegAddr = PortBaseAddr PortPtr + PortOffset StrmMod * ucast PortNum
            in Inr (ucast ((RegAddr - Base) div 4)))"

text \<open>
  \<open>_XAie_StrmConfigSlv\<close>. A successful call yields the pair (\<open>RegVal\<close>, \<open>RegOff\<close>) it
  stores through its two pointers. On the error path the source has set \<open>*RegVal\<close> to 0
  and left \<open>*RegOff\<close> alone; every caller returns at once without reading either.
\<close>

definition XAie_StrmConfigSlv ::
  "XAie_StrmMod \<Rightarrow> u32 \<Rightarrow> u8 \<Rightarrow> u8 \<Rightarrow> u8 \<Rightarrow> exec + (u32 \<times> u32)" where
  "XAie_StrmConfigSlv StrmMod PortType PortNum Enable PktEnable =
     (case StrmPort_at (SlvConfig StrmMod) PortType of
        None \<Rightarrow> Inl OutOfBounds
      | Some PortPtr \<Rightarrow>
          if NumPorts PortPtr = 0 \<or> PortNum \<ge> NumPorts PortPtr
          then Inl (Return XAIE_ERR_STREAM_PORT)
          else
            let RegOff = PortBaseAddr PortPtr + PortOffset StrmMod * ucast PortNum in
            if Enable \<noteq> XAIE_ENABLE then Inr (0, RegOff)
            else Inr
              (XAie_SetField (ucast Enable) (Lsb (SlvEn StrmMod)) (Mask (SlvEn StrmMod)) OR
               XAie_SetField (ucast PktEnable) (Lsb (SlvPktEn StrmMod))
                 (Mask (SlvPktEn StrmMod)),
               RegOff))"

text \<open>
  \<open>_StrmConfigMstr\<close>. \<open>Cfg\<close> is the parameter \<open>u8 Config\<close>, and \<open>DropHdr\<close> is a \<open>u8\<close>
  variable: the extracted field is narrowed to eight bits before it is packed again.
\<close>

definition StrmConfigMstr ::
  "XAie_StrmMod \<Rightarrow> u32 \<Rightarrow> u8 \<Rightarrow> u8 \<Rightarrow> u8 \<Rightarrow> u8 \<Rightarrow> exec + (u32 \<times> u32)" where
  "StrmConfigMstr StrmMod PortType PortNum Enable PktEnable Cfg =
     (case StrmPort_at (MstrConfig StrmMod) PortType of
        None \<Rightarrow> Inl OutOfBounds
      | Some PortPtr \<Rightarrow>
          if NumPorts PortPtr = 0 \<or> PortNum \<ge> NumPorts PortPtr
          then Inl (Return XAIE_ERR_STREAM_PORT)
          else
            let RegOff = PortBaseAddr PortPtr + PortOffset StrmMod * ucast PortNum in
            if Enable \<noteq> XAIE_ENABLE then Inr (0, RegOff)
            else
              let DropHdr = (ucast (XAie_GetField (ucast Cfg) (Lsb (DrpHdr StrmMod))
                               (Mask (DrpHdr StrmMod))) :: u8)
              in Inr
                (XAie_SetField (ucast Enable) (Lsb (MstrEn StrmMod)) (Mask (MstrEn StrmMod)) OR
                 XAie_SetField (ucast PktEnable) (Lsb (MstrPktEn StrmMod))
                   (Mask (MstrPktEn StrmMod)) OR
                 XAie_SetField (ucast DropHdr) (Lsb (DrpHdr StrmMod))
                   (Mask (DrpHdr StrmMod)) OR
                 XAie_SetField (ucast Cfg) (Lsb (Config StrmMod)) (Mask (Config StrmMod)),
                 RegOff))"

section \<open>Circuit switch connections\<close>

text \<open>
  \<open>_XAie_StreamSwitchConfigureCct\<close>, on the bus \<open>s\<close>: the result is the way the call ends
  and the bus after it.
\<close>

definition XAie_StreamSwitchConfigureCct ::
  "XAie_Globals \<Rightarrow> XAie_DevInst option \<Rightarrow> XAie_LocType \<Rightarrow> u32 \<Rightarrow> u8 \<Rightarrow> u32 \<Rightarrow> u8 \<Rightarrow> u8 \<Rightarrow>
     bus \<Rightarrow> exec \<times> bus" where
  "XAie_StreamSwitchConfigureCct X DevInst Loc Slave SlvPortNum Master MstrPortNum Enable s =
     (case DevInst of
        None \<Rightarrow> (Return XAIE_INVALID_ARGS, s)
      | Some D \<Rightarrow>
          if IsReady D \<noteq> XAIE_COMPONENT_IS_READY X then (Return XAIE_INVALID_ARGS, s)
          else if Slave \<ge> SS_PORT_TYPE_MAX X \<or> Master \<ge> SS_PORT_TYPE_MAX X
          then (Return XAIE_ERR_STREAM_PORT, s)
          else
            let TileType = XAie_GetTileTypefromLoc X D Loc in
            if TileType = XAIEGBL_TILE_TYPE_MAX X then (Return XAIE_INVALID_TILE, s)
            else
              let StrmMod = StrmSw D TileType in
              (case XAie_GetSlaveIdx StrmMod Slave SlvPortNum of
                Inl RC \<Rightarrow> (RC, s)
              | Inr SlaveIdx \<Rightarrow>
                  (case StrmConfigMstr StrmMod Master MstrPortNum Enable XAIE_DISABLE
                          SlaveIdx of
                     Inl RC \<Rightarrow> (RC, s)
                   | Inr (MstrVal, MstrOff) \<Rightarrow>
                       (case XAie_StrmConfigSlv StrmMod Slave SlvPortNum Enable
                               XAIE_DISABLE of
                          Inl RC \<Rightarrow> (RC, s)
                        | Inr (SlvVal, SlvOff) \<Rightarrow>
                            let MstrAddr = BaseAddr D + ucast MstrOff +
                                  XAie_GetTileAddr X D (Row Loc) (Col Loc) in
                            let SlvAddr = BaseAddr D + ucast SlvOff +
                                  XAie_GetTileAddr X D (Row Loc) (Col Loc)
                            in (Return XAIE_OK,
                                XAieGbl_Write32 SlvAddr SlvVal
                                  (XAieGbl_Write32 MstrAddr MstrVal s))))))"

definition XAie_StrmConnCctEnable ::
  "XAie_Globals \<Rightarrow> XAie_DevInst option \<Rightarrow> XAie_LocType \<Rightarrow> u32 \<Rightarrow> u8 \<Rightarrow> u32 \<Rightarrow> u8 \<Rightarrow>
     bus \<Rightarrow> exec \<times> bus" where
  "XAie_StrmConnCctEnable X DevInst Loc Slave SlvPortNum Master MstrPortNum s =
     XAie_StreamSwitchConfigureCct X DevInst Loc Slave SlvPortNum Master MstrPortNum
       XAIE_ENABLE s"

definition XAie_StrmConnCctDisable ::
  "XAie_Globals \<Rightarrow> XAie_DevInst option \<Rightarrow> XAie_LocType \<Rightarrow> u32 \<Rightarrow> u8 \<Rightarrow> u32 \<Rightarrow> u8 \<Rightarrow>
     bus \<Rightarrow> exec \<times> bus" where
  "XAie_StrmConnCctDisable X DevInst Loc Slave SlvPortNum Master MstrPortNum s =
     XAie_StreamSwitchConfigureCct X DevInst Loc Slave SlvPortNum Master MstrPortNum
       XAIE_DISABLE s"

section \<open>Packet switch mode: slave and master ports\<close>

text \<open>
  \<open>_XAie_StrmSlavePortConfig\<close>. The source passes \<open>EnPkt\<close> in the position of the
  builder's \<open>Enable\<close> and \<open>Enable\<close> in the position of its \<open>PktEnable\<close>; the model keeps
  that order.
\<close>

definition XAie_StrmSlavePortConfig ::
  "XAie_Globals \<Rightarrow> XAie_DevInst option \<Rightarrow> XAie_LocType \<Rightarrow> u32 \<Rightarrow> u8 \<Rightarrow> u8 \<Rightarrow> u8 \<Rightarrow>
     bus \<Rightarrow> exec \<times> bus" where
  "XAie_StrmSlavePortConfig X DevInst Loc Slave SlvPortNum EnPkt Enable s =
     (case DevInst of
        None \<Rightarrow> (Return XAIE_INVALID_ARGS, s)
      | Some D \<Rightarrow>
          if IsReady D \<noteq> XAIE_COMPONENT_IS_READY X then (Return XAIE_INVALID_ARGS, s)
          else if Slave \<ge> SS_PORT_TYPE_MAX X then (Return XAIE_ERR_STREAM_PORT, s)
          else
            let TileType = XAie_GetTileTypefromLoc X D Loc in
            if TileType = XAIEGBL_TILE_TYPE_MAX X then (Return XAIE_INVALID_TILE, s)
            else
              let StrmMod = StrmSw D TileType in
              (case XAie_StrmConfigSlv StrmMod Slave SlvPortNum EnPkt Enable of
                 Inl RC \<Rightarrow> (RC, s)
               | Inr (RegVal, RegOff) \<Rightarrow>
                   let Addr = BaseAddr D + XAie_GetTileAddr X D (Row Loc) (Col Loc) +
                         ucast RegOff
                   in (Return XAIE_OK, XAieGbl_Write32 Addr RegVal s)))"

definition XAie_StrmPktSwSlavePortEnable ::
  "XAie_Globals \<Rightarrow> XAie_DevInst option \<Rightarrow> XAie_LocType \<Rightarrow> u32 \<Rightarrow> u8 \<Rightarrow> bus \<Rightarrow> exec \<times> bus" where
  "XAie_StrmPktSwSlavePortEnable X DevInst Loc Slave SlvPortNum s =
     XAie_StrmSlavePortConfig X DevInst Loc Slave SlvPortNum XAIE_ENABLE XAIE_ENABLE s"

definition XAie_StrmPktSwSlavePortDisable ::
  "XAie_Globals \<Rightarrow> XAie_DevInst option \<Rightarrow> XAie_LocType \<Rightarrow> u32 \<Rightarrow> u8 \<Rightarrow> bus \<Rightarrow> exec \<times> bus" where
  "XAie_StrmPktSwSlavePortDisable X DevInst Loc Slave SlvPortNum s =
     XAie_StrmSlavePortConfig X DevInst Loc Slave SlvPortNum XAIE_DISABLE XAIE_DISABLE s"

text \<open>
  The 32-bit word \<open>Config\<close> that \<open>_XAie_StrmPktSwMstrPortConfig\<close> assembles (it stays 0
  unless \<open>Enable\<close> is \<open>XAIE_ENABLE\<close>). \<open>DropHeader\<close> is a value of the enumeration
  \<open>XAie_StrmSwPktHeader\<close>, converted to \<open>u32\<close> by the macro.
\<close>

definition PktSwMstrConfigWord :: "XAie_StrmMod \<Rightarrow> u32 \<Rightarrow> u8 \<Rightarrow> u8 \<Rightarrow> u8 \<Rightarrow> u32" where
  "PktSwMstrConfigWord StrmMod DropHeader Arbitor MSelEn Enable =
     (if Enable = XAIE_ENABLE
      then
        XAie_SetField DropHeader (Lsb (DrpHdr StrmMod)) (Mask (DrpHdr StrmMod)) OR
        XAie_SetField (ucast Arbitor) XAIE_SS_MASTER_PORT_ARBITOR_LSB
          XAIE_SS_MASTER_PORT_ARBITOR_MASK OR
        XAie_SetField (ucast MSelEn) XAIE_SS_MASTER_PORT_MSELEN_LSB
          XAIE_SS_MASTER_PORT_MSELEN_MASK
      else 0)"

text \<open>
  \<open>_XAie_StrmPktSwMstrPortConfig\<close>. The 32-bit \<open>Config\<close> is passed to the parameter
  \<open>u8 Config\<close> of \<open>_StrmConfigMstr\<close>: the call keeps its low eight bits.
\<close>

definition XAie_StrmPktSwMstrPortConfig ::
  "XAie_Globals \<Rightarrow> XAie_DevInst option \<Rightarrow> XAie_LocType \<Rightarrow> u32 \<Rightarrow> u8 \<Rightarrow> u32 \<Rightarrow> u8 \<Rightarrow> u8 \<Rightarrow>
     u8 \<Rightarrow> u8 \<Rightarrow> bus \<Rightarrow> exec \<times> bus" where
  "XAie_StrmPktSwMstrPortConfig X DevInst Loc Master MstrPortNum DropHeader Arbitor MSelEn
       PktEn Enable s =
     (case DevInst of
        None \<Rightarrow> (Return XAIE_INVALID_ARGS, s)
      | Some D \<Rightarrow>
          if IsReady D \<noteq> XAIE_COMPONENT_IS_READY X then (Return XAIE_INVALID_ARGS, s)
          else if Arbitor > XAIE_SS_ARBITOR_MAX \<or> MSelEn > XAIE_SS_MSELEN_MAX
          then (Return XAIE_INVALID_ARGS, s)
          else if Master \<ge> SS_PORT_TYPE_MAX X then (Return XAIE_ERR_STREAM_PORT, s)
          else
            let TileType = XAie_GetTileTypefromLoc X D Loc in
            if TileType = XAIEGBL_TILE_TYPE_MAX X then (Return XAIE_INVALID_TILE, s)
            else
              let StrmMod = StrmSw D TileType in
              let Cfg = PktSwMstrConfigWord StrmMod DropHeader Arbitor MSelEn Enable in
              (case StrmConfigMstr StrmMod Master MstrPortNum Enable PktEn (ucast Cfg) of
                 Inl RC \<Rightarrow> (RC, s)
               | Inr (RegVal, RegOff) \<Rightarrow>
                   let Addr = BaseAddr D + XAie_GetTileAddr X D (Row Loc) (Col Loc) +
                         ucast RegOff
                   in (Return XAIE_OK, XAieGbl_Write32 Addr RegVal s)))"

text \<open>
  \<open>XAIE_SS_PKT_DONOT_DROP_HEADER\<close> is a member of the enumeration \<open>XAie_StrmSwPktHeader\<close>,
  declared in a header that is not part of the sources at hand; it is taken as 0. The
  only call that passes it has \<open>Enable = XAIE_DISABLE\<close>, where the value is never packed.
\<close>

definition XAIE_SS_PKT_DONOT_DROP_HEADER :: u32 where
  "XAIE_SS_PKT_DONOT_DROP_HEADER = 0"

definition XAie_StrmPktSwMstrPortEnable ::
  "XAie_Globals \<Rightarrow> XAie_DevInst option \<Rightarrow> XAie_LocType \<Rightarrow> u32 \<Rightarrow> u8 \<Rightarrow> u32 \<Rightarrow> u8 \<Rightarrow> u8 \<Rightarrow>
     bus \<Rightarrow> exec \<times> bus" where
  "XAie_StrmPktSwMstrPortEnable X DevInst Loc Master MstrPortNum DropHeader Arbitor MSelEn s =
     XAie_StrmPktSwMstrPortConfig X DevInst Loc Master MstrPortNum DropHeader Arbitor MSelEn
       XAIE_ENABLE XAIE_ENABLE s"

definition XAie_StrmPktSwMstrPortDisable ::
  "XAie_Globals \<Rightarrow> XAie_DevInst option \<Rightarrow> XAie_LocType \<Rightarrow> u32 \<Rightarrow> u8 \<Rightarrow> bus \<Rightarrow> exec \<times> bus" where
  "XAie_StrmPktSwMstrPortDisable X DevInst Loc Master MstrPortNum s =
     XAie_StrmPktSwMstrPortConfig X DevInst Loc Master MstrPortNum
       XAIE_SS_PKT_DONOT_DROP_HEADER 0 0 XAIE_DISABLE XAIE_DISABLE s"

section \<open>Packet switch mode: slave slots\<close>

text \<open>
  The register word of an enabled slot, as \<open>_XAie_StrmSlaveSlotConfig\<close> frames it.
  \<open>MaskVal\<close> is the parameter \<open>Mask\<close>.
\<close>

definition SlaveSlotRegVal :: "XAie_StrmMod \<Rightarrow> XAie_Packet \<Rightarrow> u8 \<Rightarrow> u8 \<Rightarrow> u8 \<Rightarrow> u32" where
  "SlaveSlotRegVal StrmMod Pkt MaskVal MSel Arbitor =
     XAie_SetField (ucast (PktId Pkt)) (Lsb (SlotPktId StrmMod)) (Mask (SlotPktId StrmMod)) OR
     XAie_SetField (ucast MaskVal) (Lsb (SlotMask StrmMod)) (Mask (SlotMask StrmMod)) OR
     XAie_SetField (ucast XAIE_ENABLE) (Lsb (SlotEn StrmMod)) (Mask (SlotEn StrmMod)) OR
     XAie_SetField (ucast MSel) (Lsb (SlotMsel StrmMod)) (Mask (SlotMsel StrmMod)) OR
     XAie_SetField (ucast Arbitor) (Lsb (SlotArbitor StrmMod)) (Mask (SlotArbitor StrmMod))"

text \<open>
  \<open>_XAie_StrmSlaveSlotConfig\<close>. The condition on the port type, the slot and the port is
  evaluated from left to right and stops at the first disjunct that holds, so
  \<open>SlvConfig[Slave]\<close> is read only when the two disjuncts before it are false. The
  products \<open>SlvPortNum * SlotOffsetPerPort\<close> and \<open>SlotNum * SlotOffset\<close> are 32-bit; the
  sum is 64-bit.
\<close>

definition XAie_StrmSlaveSlotConfig ::
  "XAie_Globals \<Rightarrow> XAie_DevInst option \<Rightarrow> XAie_LocType \<Rightarrow> u32 \<Rightarrow> u8 \<Rightarrow> u8 \<Rightarrow> XAie_Packet \<Rightarrow>
     u8 \<Rightarrow> u8 \<Rightarrow> u8 \<Rightarrow> u8 \<Rightarrow> bus \<Rightarrow> exec \<times> bus" where
  "XAie_StrmSlaveSlotConfig X DevInst Loc Slave SlvPortNum SlotNum Pkt MaskVal MSel Arbitor
       Enable s =
     (case DevInst of
        None \<Rightarrow> (Return XAIE_INVALID_ARGS, s)
      | Some D \<Rightarrow>
          if IsReady D \<noteq> XAIE_COMPONENT_IS_READY X then (Return XAIE_INVALID_ARGS, s)
          else if Arbitor > XAIE_SS_ARBITOR_MAX \<or> MSel > XAIE_SS_MSEL_MAX \<or>
                  MaskVal AND NOT XAIE_SS_MASK \<noteq> 0 \<or> PktId Pkt > XAIE_PACKETID_MAX
          then (Return XAIE_INVALID_ARGS, s)
          else
            let TileType = XAie_GetTileTypefromLoc X D Loc in
            if TileType = XAIEGBL_TILE_TYPE_MAX X then (Return XAIE_INVALID_TILE, s)
            else
              let StrmMod = StrmSw D TileType in
              if Slave \<ge> SS_PORT_TYPE_MAX X \<or> SlotNum \<ge> NumSlaveSlots StrmMod
              then (Return XAIE_ERR_STREAM_PORT, s)
              else
                (case StrmPort_at (SlvConfig StrmMod) Slave of
                  None \<Rightarrow> (OutOfBounds, s)
                | Some SlvPort \<Rightarrow>
                    if SlvPortNum \<ge> NumPorts SlvPort then (Return XAIE_ERR_STREAM_PORT, s)
                    else
                      (case StrmPort_at (SlvSlotConfig StrmMod) Slave of
                         None \<Rightarrow> (OutOfBounds, s)
                       | Some SlotPort \<Rightarrow>
                           let RegAddr = BaseAddr D +
                                 XAie_GetTileAddr X D (Row Loc) (Col Loc) +
                                 ucast (PortBaseAddr SlotPort) +
                                 ucast (ucast SlvPortNum * SlotOffsetPerPort StrmMod) +
                                 ucast (ucast SlotNum * SlotOffset StrmMod) in
                           let RegVal = (if Enable = XAIE_ENABLE
                                         then SlaveSlotRegVal StrmMod Pkt MaskVal MSel Arbitor
                                         else 0)
                           in (Return XAIE_OK, XAieGbl_Write32 RegAddr RegVal s))))"

definition XAie_StrmPktSwSlaveSlotEnable ::
  "XAie_Globals \<Rightarrow> XAie_DevInst option \<Rightarrow> XAie_LocType \<Rightarrow> u32 \<Rightarrow> u8 \<Rightarrow> u8 \<Rightarrow> XAie_Packet \<Rightarrow>
     u8 \<Rightarrow> u8 \<Rightarrow> u8 \<Rightarrow> bus \<Rightarrow> exec \<times> bus" where
  "XAie_StrmPktSwSlaveSlotEnable X DevInst Loc Slave SlvPortNum SlotNum Pkt MaskVal MSel
       Arbitor s =
     XAie_StrmSlaveSlotConfig X DevInst Loc Slave SlvPortNum SlotNum Pkt MaskVal MSel Arbitor
       XAIE_ENABLE s"

definition XAie_StrmPktSwSlaveSlotDisable ::
  "XAie_Globals \<Rightarrow> XAie_DevInst option \<Rightarrow> XAie_LocType \<Rightarrow> u32 \<Rightarrow> u8 \<Rightarrow> u8 \<Rightarrow> bus \<Rightarrow>
     exec \<times> bus" where
  "XAie_StrmPktSwSlaveSlotDisable X DevInst Loc Slave SlvPortNum SlotNum s =
     XAie_StrmSlaveSlotConfig X DevInst Loc Slave SlvPortNum SlotNum (XAie_PacketInit 0 0)
       0 0 0 XAIE_DISABLE s"

section \<open>A concrete device\<close>

text \<open>
  A device for evaluating the driver: the port type enumeration starts with \<open>CORE\<close> and
  \<open>DMA\<close> and ends with the sentinel 9; rows 0 to 8 resolve to tile type 0, every other
  row to no tile type (the sentinel 4). The stream switch module has its slave registers
  from \<open>0x100\<close>, the \<open>DMA\<close> slave ports from \<open>0x120\<close>, four bytes between ports, the
  slot registers of the \<open>CORE\<close> slave ports from \<open>0x800\<close>, \<open>0x40\<close> bytes between the slot
  blocks of two ports and four bytes between slots.
\<close>

definition CORE :: u32 where
  "CORE = 0"

definition DMA :: u32 where
  "DMA = 1"

definition no_port :: XAie_StrmPort where
  "no_port = \<lparr>NumPorts = 0, PortBaseAddr = 0\<rparr>"

definition ex_StrmMod :: XAie_StrmMod where
  "ex_StrmMod =
     \<lparr>NumSlaveSlots = 4, SlvConfigBaseAddr = 0x100, PortOffset = 4,
      SlotOffsetPerPort = 0x40, SlotOffset = 0x4,
      MstrEn = \<lparr>Lsb = 31, Mask = 0x80000000\<rparr>,
      MstrPktEn = \<lparr>Lsb = 30, Mask = 0x40000000\<rparr>,
      DrpHdr = \<lparr>Lsb = 7, Mask = 0x80\<rparr>,
      Config = \<lparr>Lsb = 0, Mask = 0x7F\<rparr>,
      SlvEn = \<lparr>Lsb = 31, Mask = 0x80000000\<rparr>,
      SlvPktEn = \<lparr>Lsb = 30, Mask = 0x40000000\<rparr>,
      SlotPktId = \<lparr>Lsb = 24, Mask = 0x1F000000\<rparr>,
      SlotMask = \<lparr>Lsb = 16, Mask = 0x1F0000\<rparr>,
      SlotEn = \<lparr>Lsb = 8, Mask = 0x100\<rparr>,
      SlotMsel = \<lparr>Lsb = 4, Mask = 0x30\<rparr>,
      SlotArbitor = \<lparr>Lsb = 0, Mask = 0x7\<rparr>,
      MstrConfig =
        [\<lparr>NumPorts = 2, PortBaseAddr = 0x0\<rparr>, \<lparr>NumPorts = 2, PortBaseAddr = 0x8\<rparr>,
         no_port, no_port, no_port, no_port, no_port, no_port, no_port],
      SlvConfig =
        [\<lparr>NumPorts = 2, PortBaseAddr = 0x100\<rparr>, \<lparr>NumPorts = 3, PortBaseAddr = 0x120\<rparr>,
         no_port, no_port, no_port, no_port, no_port, no_port, no_port],
      SlvSlotConfig =
        [\<lparr>NumPorts = 2, PortBaseAddr = 0x800\<rparr>, \<lparr>NumPorts = 3, PortBaseAddr = 0x880\<rparr>,
         no_port, no_port, no_port, no_port, no_port, no_port, no_port]\<rparr>"

definition ex_DevInst :: XAie_DevInst where
  "ex_DevInst = \<lparr>BaseAddr = 0x20000000000, IsReady = 1, StrmSw = (\<lambda>t. ex_StrmMod)\<rparr>"

definition ex_Globals :: XAie_Globals where
  "ex_Globals =
     \<lparr>SS_PORT_TYPE_MAX = 9, XAIEGBL_TILE_TYPE_MAX = 4, XAIE_COMPONENT_IS_READY = 1,
      XAie_GetTileTypefromLoc = (\<lambda>D L. if Row L \<le> 8 then 0 else 4),
      XAie_GetTileAddr = (\<lambda>D R C. push_bit 23 (ucast C) + push_bit 18 (ucast R))\<rparr>"

text \<open>
  Three variants of the module: one whose \<open>DMA\<close> slave ports lie \<open>0x400\<close> bytes after
  the first slave register, one whose drop-header field is bit 8, and one whose slot
  blocks of two ports lie \<open>0x80000000\<close> bytes apart.
\<close>

definition far_StrmMod :: XAie_StrmMod where
  "far_StrmMod =
     ex_StrmMod\<lparr>SlvConfig :=
       [\<lparr>NumPorts = 2, PortBaseAddr = 0x100\<rparr>, \<lparr>NumPorts = 3, PortBaseAddr = 0x500\<rparr>,
        no_port, no_port, no_port, no_port, no_port, no_port, no_port]\<rparr>"

definition hdr8_StrmMod :: XAie_StrmMod where
  "hdr8_StrmMod = ex_StrmMod\<lparr>DrpHdr := \<lparr>Lsb = 8, Mask = 0x100\<rparr>\<rparr>"

definition hdr8_DevInst :: XAie_DevInst where
  "hdr8_DevInst = ex_DevInst\<lparr>StrmSw := (\<lambda>t. hdr8_StrmMod)\<rparr>"

definition wrap_StrmMod :: XAie_StrmMod where
  "wrap_StrmMod = ex_StrmMod\<lparr>SlotOffsetPerPort := 0x80000000\<rparr>"

definition wrap_DevInst :: XAie_DevInst where
  "wrap_DevInst = ex_DevInst\<lparr>StrmSw := (\<lambda>t. wrap_StrmMod)\<rparr>"

section \<open>Bit-level facts\<close>

text \<open>
  The master builder keeps the extracted drop-header field in a \<open>u8\<close>. The field comes
  out of an 8-bit word, so the narrowing loses nothing.
\<close>

lemma ucast_u8_drop_bit_and:
  "(ucast (ucast (drop_bit n ((ucast (c :: u8) :: u32) AND m)) :: u8) :: u32) =
     drop_bit n (ucast c AND m)"
  by (rule bit_word_eqI) (auto simp add: bit_simps dest: bit_imp_le_length)

lemma DropHdr_narrowing:
  "(ucast (ucast (XAie_GetField (ucast (Cfg :: u8)) L M) :: u8) :: u32) =
     XAie_GetField (ucast Cfg) L M"
  unfolding XAie_GetField_def by (rule ucast_u8_drop_bit_and)

lemma four_fields_within_masks:
  "(XAie_SetField V1 L1 M1 OR XAie_SetField V2 L2 M2 OR XAie_SetField V3 L3 M3 OR
    XAie_SetField V4 L4 M4) AND NOT (M1 OR M2 OR M3 OR M4) = 0"
  by (rule bit_word_eqI) (auto simp add: XAie_SetField_def bit_simps)

lemma uint_slave_quotient:
  "uint (ucast ((a + b * ucast (p :: u8) - (d :: u32)) div 4) :: u8) =
     ((uint a + uint b * uint p - uint d) mod 2 ^ 32 div 4) mod 2 ^ 8"
  by (simp add: uint_word_ariths uint_div unsigned_ucast_eq take_bit_eq_mod mod_simps)

section \<open>Circuit connections: validate, then commit\<close>











section \<open>The slave index\<close>

text \<open>
  Claim C2, as stated, fails: the index is stored in a \<open>u8\<close>. In \<open>far_StrmMod\<close> the
  \<open>DMA\<close> slave port 0 is valid and lies \<open>0x400\<close> bytes after the first slave register;
  the quotient is 256 and the index returned is 0.
\<close>

theorem XAie_GetSlaveIdx_formula_counterexample:
  "StrmPort_at (SlvConfig far_StrmMod) DMA = Some \<lparr>NumPorts = 3, PortBaseAddr = 0x500\<rparr> \<and>
   XAie_GetSlaveIdx far_StrmMod DMA 0 = Inr 0 \<and>
   (0x500 + PortOffset far_StrmMod * 0 - SlvConfigBaseAddr far_StrmMod) div 4 = 256"
  by code_simp

text \<open>
  Claim C2, amended. Let \<open>P\<close> be the entry of the slave port type in the slave table.
  With \<open>NumPorts P = 0\<close> or \<open>PortNum \<ge> NumPorts P\<close> the resolver fails with
  \<open>XAIE_ERR_STREAM_PORT\<close>. Otherwise it returns the low eight bits of the quotient
  \<open>(PortBaseAddr P + PortOffset * PortNum - SlvConfigBaseAddr) / 4\<close> computed in unsigned
  32-bit arithmetic; when the port address does not wrap, is not below
  \<open>SlvConfigBaseAddr\<close> and the quotient is below 256, that is the quotient of the
  formula itself, as for base \<open>0x100\<close>, port base \<open>0x120\<close>, stride 4 and port 2, where
  the index is 10.
\<close>

theorem XAie_GetSlaveIdx_index:
  assumes "StrmPort_at (SlvConfig StrmMod) Slave = Some P"
  shows "(NumPorts P = 0 \<or> NumPorts P \<le> PortNum \<longrightarrow>
            XAie_GetSlaveIdx StrmMod Slave PortNum = Inl (Return XAIE_ERR_STREAM_PORT)) \<and>
         (0 < NumPorts P \<and> PortNum < NumPorts P \<longrightarrow>
            (\<exists>Idx. XAie_GetSlaveIdx StrmMod Slave PortNum = Inr Idx \<and>
               uint Idx =
                 ((uint (PortBaseAddr P) + uint (PortOffset StrmMod) * uint PortNum -
                   uint (SlvConfigBaseAddr StrmMod)) mod 2 ^ 32 div 4) mod 2 ^ 8 \<and>
               (uint (SlvConfigBaseAddr StrmMod) \<le>
                  uint (PortBaseAddr P) + uint (PortOffset StrmMod) * uint PortNum \<and>
                uint (PortBaseAddr P) + uint (PortOffset StrmMod) * uint PortNum < 2 ^ 32 \<and>
                (uint (PortBaseAddr P) + uint (PortOffset StrmMod) * uint PortNum -
                   uint (SlvConfigBaseAddr StrmMod)) div 4 < 2 ^ 8 \<longrightarrow>
                uint Idx =
                  (uint (PortBaseAddr P) + uint (PortOffset StrmMod) * uint PortNum -
                   uint (SlvConfigBaseAddr StrmMod)) div 4)))"
proof (intro conjI impI)
  assume "NumPorts P = 0 \<or> NumPorts P \<le> PortNum"
  with assms show "XAie_GetSlaveIdx StrmMod Slave PortNum = Inl (Return XAIE_ERR_STREAM_PORT)"
    by (simp add: XAie_GetSlaveIdx_def)
next
  let ?n = "uint (PortBaseAddr P) + uint (PortOffset StrmMod) * uint PortNum -
              uint (SlvConfigBaseAddr StrmMod)"
  let ?Idx = "(ucast ((PortBaseAddr P + PortOffset StrmMod * ucast PortNum -
                 SlvConfigBaseAddr StrmMod) div 4) :: u8)"
  assume ok: "0 < NumPorts P \<and> PortNum < NumPorts P"
  then have "NumPorts P \<noteq> 0" and "\<not> NumPorts P \<le> PortNum"
    by auto
  with assms have run: "XAie_GetSlaveIdx StrmMod Slave PortNum = Inr ?Idx"
    by (simp add: XAie_GetSlaveIdx_def)
  have val: "uint ?Idx = (?n mod 2 ^ 32 div 4) mod 2 ^ 8"
    by (rule uint_slave_quotient)
  have fit: "uint ?Idx = ?n div 4"
    if "uint (SlvConfigBaseAddr StrmMod) \<le>
          uint (PortBaseAddr P) + uint (PortOffset StrmMod) * uint PortNum \<and>
        uint (PortBaseAddr P) + uint (PortOffset StrmMod) * uint PortNum < 2 ^ 32 \<and>
        ?n div 4 < 2 ^ 8"
  proof -
    from that have "0 \<le> ?n" and "?n < 2 ^ 32" and small: "?n div 4 < 2 ^ 8"
      using uint_ge_0 [of "SlvConfigBaseAddr StrmMod"] by linarith+
    then have "?n mod 2 ^ 32 = ?n"
      by simp
    moreover from \<open>0 \<le> ?n\<close> have "0 \<le> ?n div 4"
      by simp
    ultimately show ?thesis
      using val small by simp
  qed
  from run val fit show "\<exists>Idx. XAie_GetSlaveIdx StrmMod Slave PortNum = Inr Idx \<and>
      uint Idx = (?n mod 2 ^ 32 div 4) mod 2 ^ 8 \<and>
      (uint (SlvConfigBaseAddr StrmMod) \<le>
          uint (PortBaseAddr P) + uint (PortOffset StrmMod) * uint PortNum \<and>
        uint (PortBaseAddr P) + uint (PortOffset StrmMod) * uint PortNum < 2 ^ 32 \<and>
        ?n div 4 < 2 ^ 8 \<longrightarrow> uint Idx = ?n div 4)"
    by blast
qed

theorem XAie_GetSlaveIdx_index_witness:
  "XAie_GetSlaveIdx ex_StrmMod DMA 2 = Inr 10 \<and>
   (10 :: int) = (0x120 + 4 * 2 - 0x100) div 4 \<and>
   XAie_GetSlaveIdx ex_StrmMod DMA 3 = Inl (Return XAIE_ERR_STREAM_PORT)"
proof -
  let ?P = "\<lparr>NumPorts = 3, PortBaseAddr = 0x120\<rparr>"
  have at: "StrmPort_at (SlvConfig ex_StrmMod) DMA = Some ?P"
    by code_simp
  have bad: "XAie_GetSlaveIdx ex_StrmMod DMA 3 = Inl (Return XAIE_ERR_STREAM_PORT)"
    using XAie_GetSlaveIdx_index [OF at, of 3] by simp
  have ok: "0 < NumPorts ?P \<and> 2 < NumPorts ?P"
    by simp
  have fits: "uint (SlvConfigBaseAddr ex_StrmMod) \<le>
        uint (PortBaseAddr ?P) + uint (PortOffset ex_StrmMod) * uint (2 :: u8) \<and>
      uint (PortBaseAddr ?P) + uint (PortOffset ex_StrmMod) * uint (2 :: u8) < 2 ^ 32 \<and>
      (uint (PortBaseAddr ?P) + uint (PortOffset ex_StrmMod) * uint (2 :: u8) -
         uint (SlvConfigBaseAddr ex_StrmMod)) div 4 < 2 ^ 8"
    by (simp add: ex_StrmMod_def)
  from XAie_GetSlaveIdx_index [OF at, of 2] ok fits
  obtain Idx where run: "XAie_GetSlaveIdx ex_StrmMod DMA 2 = Inr Idx"
    and "uint Idx =
      (uint (PortBaseAddr ?P) + uint (PortOffset ex_StrmMod) * uint (2 :: u8) -
         uint (SlvConfigBaseAddr ex_StrmMod)) div 4"
    by blast
  then have "uint Idx = (0x120 + 4 * 2 - 0x100) div 4"
    by (simp add: ex_StrmMod_def)
  then have "Idx = 10"
    by (simp add: word_uint_eq_iff)
  with run bad show ?thesis
    by simp
qed

section \<open>The master register\<close>

text \<open>
  Claim C3. For a master port type whose table entry \<open>P\<close> has \<open>NumPorts P \<noteq> 0\<close> and a
  port number below \<open>NumPorts P\<close>, the master builder called with \<open>XAIE_ENABLE\<close> yields
  the register offset of the port and the word that is the disjunction of master-enable
  (1) packed into its field, the packet-mode flag packed into its field, the
  drop-header bits extracted from the configuration word packed into the drop-header
  field, and the configuration word packed into the generic configuration field; the
  word has no bit outside the four masks.
\<close>

theorem StrmConfigMstr_enabled:
  assumes "StrmPort_at (MstrConfig StrmMod) PortType = Some P"
    and "NumPorts P \<noteq> 0" and "PortNum < NumPorts P"
  shows "\<exists>RegVal.
      StrmConfigMstr StrmMod PortType PortNum XAIE_ENABLE PktEnable Cfg =
        Inr (RegVal, PortBaseAddr P + PortOffset StrmMod * ucast PortNum) \<and>
      RegVal =
        (XAie_SetField 1 (Lsb (MstrEn StrmMod)) (Mask (MstrEn StrmMod)) OR
         XAie_SetField (ucast PktEnable) (Lsb (MstrPktEn StrmMod)) (Mask (MstrPktEn StrmMod)) OR
         XAie_SetField
           (XAie_GetField (ucast Cfg) (Lsb (DrpHdr StrmMod)) (Mask (DrpHdr StrmMod)))
           (Lsb (DrpHdr StrmMod)) (Mask (DrpHdr StrmMod)) OR
         XAie_SetField (ucast Cfg) (Lsb (Config StrmMod)) (Mask (Config StrmMod))) \<and>
      RegVal AND NOT (Mask (MstrEn StrmMod) OR Mask (MstrPktEn StrmMod) OR
        Mask (DrpHdr StrmMod) OR Mask (Config StrmMod)) = 0"
proof -
  from assms(3) have "\<not> NumPorts P \<le> PortNum"
    by simp
  with assms(1,2) have "StrmConfigMstr StrmMod PortType PortNum XAIE_ENABLE PktEnable Cfg =
      Inr (XAie_SetField 1 (Lsb (MstrEn StrmMod)) (Mask (MstrEn StrmMod)) OR
         XAie_SetField (ucast PktEnable) (Lsb (MstrPktEn StrmMod)) (Mask (MstrPktEn StrmMod)) OR
         XAie_SetField
           (XAie_GetField (ucast Cfg) (Lsb (DrpHdr StrmMod)) (Mask (DrpHdr StrmMod)))
           (Lsb (DrpHdr StrmMod)) (Mask (DrpHdr StrmMod)) OR
         XAie_SetField (ucast Cfg) (Lsb (Config StrmMod)) (Mask (Config StrmMod)),
         PortBaseAddr P + PortOffset StrmMod * ucast PortNum)"
    by (simp add: StrmConfigMstr_def XAIE_ENABLE_def DropHdr_narrowing)
  then show ?thesis
    using four_fields_within_masks by blast
qed

theorem StrmConfigMstr_enabled_witness:
  "StrmConfigMstr ex_StrmMod CORE 1 XAIE_ENABLE 1 0x9D = Inr (0xC000009D, 0x4)"
proof -
  let ?P = "\<lparr>NumPorts = 2, PortBaseAddr = 0x0\<rparr>"
  have at: "StrmPort_at (MstrConfig ex_StrmMod) CORE = Some ?P"
    by code_simp
  have "NumPorts ?P \<noteq> 0" and "1 < NumPorts ?P"
    by simp_all
  from StrmConfigMstr_enabled [OF at this, of 1 "0x9D"]
  have "StrmConfigMstr ex_StrmMod CORE 1 XAIE_ENABLE 1 0x9D =
      Inr (XAie_SetField 1 (Lsb (MstrEn ex_StrmMod)) (Mask (MstrEn ex_StrmMod)) OR
         XAie_SetField (ucast (1 :: u8)) (Lsb (MstrPktEn ex_StrmMod))
           (Mask (MstrPktEn ex_StrmMod)) OR
         XAie_SetField
           (XAie_GetField (ucast (0x9D :: u8)) (Lsb (DrpHdr ex_StrmMod))
              (Mask (DrpHdr ex_StrmMod)))
           (Lsb (DrpHdr ex_StrmMod)) (Mask (DrpHdr ex_StrmMod)) OR
         XAie_SetField (ucast (0x9D :: u8)) (Lsb (Config ex_StrmMod))
           (Mask (Config ex_StrmMod)),
         PortBaseAddr ?P + PortOffset ex_StrmMod * ucast (1 :: u8))"
    by blast
  also have "\<dots> = Inr (0xC000009D, 0x4)"
    by code_simp
  finally show ?thesis .
qed

section \<open>Disabling\<close>

text \<open>
  Claim C4. Called with an \<open>Enable\<close> other than \<open>XAIE_ENABLE\<close>, the slave builder and
  the master builder yield the register word 0 whenever they yield a word, and the
  slot configurator, whenever it succeeds, issues one write, of the word 0; whatever
  the packet-mode flag, the configuration word, the packet, the mask, the select value
  and the arbitration are.
\<close>

theorem disable_yields_reset_word:
  assumes "Enable \<noteq> XAIE_ENABLE"
  shows "(XAie_StrmConfigSlv StrmMod PortType PortNum Enable PktEnable = Inr (SlvVal, SlvOff) \<longrightarrow>
            SlvVal = 0) \<and>
         (StrmConfigMstr StrmMod PortType PortNum Enable PktEnable Cfg = Inr (MstrVal, MstrOff) \<longrightarrow>
            MstrVal = 0) \<and>
         (XAie_StrmSlaveSlotConfig X DevInst Loc Slave SlvPortNum SlotNum Pkt MaskVal MSel
              Arbitor Enable s = (Return XAIE_OK, s') \<longrightarrow>
            (\<exists>RegAddr. s' = s @ [(RegAddr, 0)]))"
proof (intro conjI impI)
  assume "XAie_StrmConfigSlv StrmMod PortType PortNum Enable PktEnable = Inr (SlvVal, SlvOff)"
  with assms show "SlvVal = 0"
    by (auto simp add: XAie_StrmConfigSlv_def Let_def split: option.splits if_splits)
next
  assume "StrmConfigMstr StrmMod PortType PortNum Enable PktEnable Cfg = Inr (MstrVal, MstrOff)"
  with assms show "MstrVal = 0"
    by (auto simp add: StrmConfigMstr_def Let_def split: option.splits if_splits)
next
  assume "XAie_StrmSlaveSlotConfig X DevInst Loc Slave SlvPortNum SlotNum Pkt MaskVal MSel
              Arbitor Enable s = (Return XAIE_OK, s')"
  with assms show "\<exists>RegAddr. s' = s @ [(RegAddr, 0)]"
    by (auto simp add: XAie_StrmSlaveSlotConfig_def XAieGbl_Write32_def Let_def
        split: option.splits if_splits)
qed

theorem disable_yields_reset_word_witness:
  "XAIE_DISABLE \<noteq> XAIE_ENABLE \<and>
   XAie_StrmConfigSlv ex_StrmMod DMA 0 XAIE_DISABLE 1 = Inr (0, 0x120) \<and>
   StrmConfigMstr ex_StrmMod DMA 0 XAIE_DISABLE 1 0x9D = Inr (0, 0x8) \<and>
   XAie_StrmSlaveSlotConfig ex_Globals (Some ex_DevInst) \<lparr>Row = 1, Col = 1\<rparr> CORE 0 3
     \<lparr>PktId = 5, PktType = 0\<rparr> 0x1F 2 3 XAIE_DISABLE [] =
     (Return XAIE_OK, [(0x2000084080C, 0)])"
proof -
  let ?slv = "XAie_StrmConfigSlv ex_StrmMod DMA 0 XAIE_DISABLE 1"
  let ?mstr = "StrmConfigMstr ex_StrmMod DMA 0 XAIE_DISABLE 1 0x9D"
  let ?slot = "XAie_StrmSlaveSlotConfig ex_Globals (Some ex_DevInst) \<lparr>Row = 1, Col = 1\<rparr>
     CORE 0 3 \<lparr>PktId = 5, PktType = 0\<rparr> 0x1F 2 3 XAIE_DISABLE []"
  have off: "XAIE_DISABLE \<noteq> XAIE_ENABLE"
    by (simp add: XAIE_DISABLE_def XAIE_ENABLE_def)
  have "map_sum id snd ?slv = Inr 0x120"
    by code_simp
  then obtain SlvVal where slv: "?slv = Inr (SlvVal, 0x120)"
    by (cases ?slv) auto
  have "map_sum id snd ?mstr = Inr 0x8"
    by code_simp
  then obtain MstrVal where mstr: "?mstr = Inr (MstrVal, 0x8)"
    by (cases ?mstr) auto
  have "fst ?slot = Return XAIE_OK" and addr: "map fst (snd ?slot) = [0x2000084080C]"
    by code_simp+
  then have slot: "?slot = (Return XAIE_OK, snd ?slot)"
    by (simp add: prod_eq_iff)
  from disable_yields_reset_word [OF off, of ex_StrmMod DMA 0 1 SlvVal "0x120" "0x9D" MstrVal
      "0x8" ex_Globals "Some ex_DevInst" "\<lparr>Row = 1, Col = 1\<rparr>" CORE 0 3
      "\<lparr>PktId = 5, PktType = 0\<rparr>" "0x1F" 2 3 "[]" "snd ?slot"] slv mstr slot
  have "SlvVal = 0" and "MstrVal = 0" and "\<exists>RegAddr. snd ?slot = [(RegAddr, 0)]"
    by simp_all
  with slv mstr slot addr off show ?thesis
    by auto
qed

section \<open>Field bounds\<close>

text \<open>The test \<open>Mask & ~XAIE_SS_MASK\<close> of the slot configurator, as a comparison.\<close>

lemma Mask_check_iff: "(MaskVal AND NOT XAIE_SS_MASK \<noteq> 0) = (0x1F < MaskVal)" for MaskVal :: u8
proof -
  have m: "XAIE_SS_MASK = mask 5"
    by (simp add: XAIE_SS_MASK_def mask_eq_exp_minus_1)
  have "(MaskVal AND NOT (mask 5) = 0) = (MaskVal AND mask 5 = MaskVal)"
    by (auto simp add: bit_eq_iff bit_simps)
  also have "\<dots> = (uint MaskVal < 2 ^ 5)"
    by (rule mask_eq_iff)
  also have "\<dots> = (\<not> 0x1F < MaskVal)"
    by (simp add: word_less_def not_less) arith
  finally show ?thesis
    by (simp add: m)
qed

text \<open>
  Claim C5. The master port configurator returns \<open>XAIE_INVALID_ARGS\<close> and leaves the bus
  unchanged whenever the arbitration exceeds 7 or the select-enable exceeds 15; the slot
  configurator does so whenever the arbitration exceeds 7, the select value exceeds 3,
  the mask has a bit outside its low five bits (it exceeds \<open>0x1F\<close>) or the packet id
  exceeds 31; whatever the device, the location and the other arguments are.
\<close>

theorem field_bounds_rejected:
  "(XAIE_SS_ARBITOR_MAX < Arbitor \<or> XAIE_SS_MSELEN_MAX < MSelEn \<longrightarrow>
      XAie_StrmPktSwMstrPortConfig X DevInst Loc Master MstrPortNum DropHeader Arbitor MSelEn
        PktEn Enable s = (Return XAIE_INVALID_ARGS, s)) \<and>
   (XAIE_SS_ARBITOR_MAX < Arbitor \<or> XAIE_SS_MSEL_MAX < MSel \<or> 0x1F < MaskVal \<or>
    XAIE_PACKETID_MAX < PktId Pkt \<longrightarrow>
      XAie_StrmSlaveSlotConfig X DevInst Loc Slave SlvPortNum SlotNum Pkt MaskVal MSel Arbitor
        Enable s = (Return XAIE_INVALID_ARGS, s))"
proof (intro conjI impI)
  assume "XAIE_SS_ARBITOR_MAX < Arbitor \<or> XAIE_SS_MSELEN_MAX < MSelEn"
  then show "XAie_StrmPktSwMstrPortConfig X DevInst Loc Master MstrPortNum DropHeader Arbitor
      MSelEn PktEn Enable s = (Return XAIE_INVALID_ARGS, s)"
    by (cases DevInst) (auto simp add: XAie_StrmPktSwMstrPortConfig_def)
next
  assume "XAIE_SS_ARBITOR_MAX < Arbitor \<or> XAIE_SS_MSEL_MAX < MSel \<or> 0x1F < MaskVal \<or>
    XAIE_PACKETID_MAX < PktId Pkt"
  then have "XAIE_SS_ARBITOR_MAX < Arbitor \<or> XAIE_SS_MSEL_MAX < MSel \<or>
      MaskVal AND NOT XAIE_SS_MASK \<noteq> 0 \<or> XAIE_PACKETID_MAX < PktId Pkt"
    by (simp only: Mask_check_iff)
  then show "XAie_StrmSlaveSlotConfig X DevInst Loc Slave SlvPortNum SlotNum Pkt MaskVal MSel
      Arbitor Enable s = (Return XAIE_INVALID_ARGS, s)"
    by (cases DevInst) (simp_all add: XAie_StrmSlaveSlotConfig_def)
qed

theorem field_bounds_rejected_witness:
  "XAie_StrmPktSwMstrPortEnable ex_Globals (Some ex_DevInst) \<lparr>Row = 1, Col = 1\<rparr> CORE 1 1 8 3 [] =
     (Return XAIE_INVALID_ARGS, []) \<and>
   XAie_StrmPktSwMstrPortEnable ex_Globals (Some ex_DevInst) \<lparr>Row = 1, Col = 1\<rparr> CORE 1 1 5 16 [] =
     (Return XAIE_INVALID_ARGS, []) \<and>
   XAie_StrmPktSwSlaveSlotEnable ex_Globals (Some ex_DevInst) \<lparr>Row = 1, Col = 1\<rparr> CORE 0 3
     \<lparr>PktId = 5, PktType = 0\<rparr> 0x1F 2 8 [] = (Return XAIE_INVALID_ARGS, []) \<and>
   XAie_StrmPktSwSlaveSlotEnable ex_Globals (Some ex_DevInst) \<lparr>Row = 1, Col = 1\<rparr> CORE 0 3
     \<lparr>PktId = 5, PktType = 0\<rparr> 0x1F 4 3 [] = (Return XAIE_INVALID_ARGS, []) \<and>
   XAie_StrmPktSwSlaveSlotEnable ex_Globals (Some ex_DevInst) \<lparr>Row = 1, Col = 1\<rparr> CORE 0 3
     \<lparr>PktId = 5, PktType = 0\<rparr> 0x20 2 3 [] = (Return XAIE_INVALID_ARGS, []) \<and>
   XAie_StrmPktSwSlaveSlotEnable ex_Globals (Some ex_DevInst) \<lparr>Row = 1, Col = 1\<rparr> CORE 0 3
     \<lparr>PktId = 32, PktType = 0\<rparr> 0x1F 2 3 [] = (Return XAIE_INVALID_ARGS, [])"
proof -
  have a: "XAIE_SS_ARBITOR_MAX < 8" and b: "XAIE_SS_MSELEN_MAX < 16"
    and c: "XAIE_SS_MSEL_MAX < 4" and d: "(0x1F :: u8) < 0x20"
    and e: "XAIE_PACKETID_MAX < PktId \<lparr>PktId = 32, PktType = 0\<rparr>"
    by (simp_all add: XAIE_SS_ARBITOR_MAX_def XAIE_SS_MSELEN_MAX_def XAIE_SS_MSEL_MAX_def
        XAIE_PACKETID_MAX_def)
  show ?thesis
    unfolding XAie_StrmPktSwMstrPortEnable_def XAie_StrmPktSwSlaveSlotEnable_def
    using a b c d e
      field_bounds_rejected [of 8 3 ex_Globals "Some ex_DevInst" "\<lparr>Row = 1, Col = 1\<rparr>" CORE 1 1
        XAIE_ENABLE XAIE_ENABLE "[]" 2 "0x1F" "\<lparr>PktId = 5, PktType = 0\<rparr>" CORE 0 3]
      field_bounds_rejected [of 5 16 ex_Globals "Some ex_DevInst" "\<lparr>Row = 1, Col = 1\<rparr>" CORE 1 1
        XAIE_ENABLE XAIE_ENABLE "[]" 4 "0x1F" "\<lparr>PktId = 5, PktType = 0\<rparr>" CORE 0 3]
      field_bounds_rejected [of 3 0 ex_Globals "Some ex_DevInst" "\<lparr>Row = 1, Col = 1\<rparr>" CORE 1 1
        XAIE_ENABLE XAIE_ENABLE "[]" 4 "0x1F" "\<lparr>PktId = 5, PktType = 0\<rparr>" CORE 0 3]
      field_bounds_rejected [of 3 0 ex_Globals "Some ex_DevInst" "\<lparr>Row = 1, Col = 1\<rparr>" CORE 1 1
        XAIE_ENABLE XAIE_ENABLE "[]" 2 "0x20" "\<lparr>PktId = 5, PktType = 0\<rparr>" CORE 0 3]
      field_bounds_rejected [of 3 0 ex_Globals "Some ex_DevInst" "\<lparr>Row = 1, Col = 1\<rparr>" CORE 1 1
        XAIE_ENABLE XAIE_ENABLE "[]" 2 "0x1F" "\<lparr>PktId = 32, PktType = 0\<rparr>" CORE 0 3]
    by simp
qed

section \<open>Slave slots\<close>

lemma unat_ucast_u8_u32: "unat (ucast w :: u32) = unat w" for w :: u8
proof -
  have "unat w < 2 ^ 8"
    using unsigned_less [of w] by simp
  then have "unat w < 2 ^ 32"
    by simp
  then show ?thesis
    by (simp add: unsigned_ucast_eq take_bit_nat_eq_self)
qed

lemma slot_offset_nat:
  fixes B :: u32 and p q :: u8 and PerPort Off :: u32
  assumes "unat p * unat PerPort < 2 ^ 32" and "unat q * unat Off < 2 ^ 32"
  shows "(ucast B :: u64) + ucast (ucast p * PerPort) + ucast (ucast q * Off) =
     of_nat (unat B + unat p * unat PerPort + unat q * unat Off)"
proof -
  have "unat ((ucast p :: u32) * PerPort) = unat p * unat PerPort"
    using assms(1) by (simp add: unat_word_ariths unat_ucast_u8_u32)
  moreover have "unat ((ucast q :: u32) * Off) = unat q * unat Off"
    using assms(2) by (simp add: unat_word_ariths unat_ucast_u8_u32)
  moreover have "(ucast w :: u64) = of_nat (unat w)" for w :: u32
    by simp
  ultimately show ?thesis
    by (simp only: of_nat_add)
qed

lemma slot_offset_nat_mod:
  fixes B :: u32 and p q :: u8 and PerPort Off :: u32
  shows "(ucast B :: u64) + ucast (ucast p * PerPort) + ucast (ucast q * Off) =
     of_nat (unat B + unat p * unat PerPort mod 2 ^ 32 + unat q * unat Off mod 2 ^ 32)"
proof -
  have "unat ((ucast p :: u32) * PerPort) = unat p * unat PerPort mod 2 ^ 32"
    by (simp add: unat_word_ariths unat_ucast_u8_u32)
  moreover have "unat ((ucast q :: u32) * Off) = unat q * unat Off mod 2 ^ 32"
    by (simp add: unat_word_ariths unat_ucast_u8_u32)
  moreover have "(ucast w :: u64) = of_nat (unat w)" for w :: u32
    by simp
  ultimately show ?thesis
    by (simp only: of_nat_add)
qed

text \<open>
  Claim C6, as stated, fails: the two products are 32-bit. In \<open>wrap_StrmMod\<close> the slot
  blocks of two ports lie \<open>0x80000000\<close> bytes apart; the request for slot 1 of the \<open>DMA\<close>
  slave port 2 is valid (it ends in \<open>XAIE_OK\<close>), the product \<open>2 * 0x80000000\<close> wraps to
  0, and the write goes to the tile base plus \<open>0x884\<close>, where the formula of the claim
  gives the tile base plus \<open>0x100000884\<close>.
\<close>

theorem SlaveSlotConfig_address_counterexample:
  "XAie_StrmPktSwSlaveSlotEnable ex_Globals (Some wrap_DevInst) \<lparr>Row = 1, Col = 1\<rparr> DMA 2 1
     \<lparr>PktId = 5, PktType = 0\<rparr> 0x1F 2 3 [] =
     (Return XAIE_OK, [(0x20000840884, 0x051F0123)]) \<and>
   StrmPort_at (SlvSlotConfig wrap_StrmMod) DMA = Some \<lparr>NumPorts = 3, PortBaseAddr = 0x880\<rparr> \<and>
   BaseAddr wrap_DevInst +
     XAie_GetTileAddr ex_Globals wrap_DevInst (Row \<lparr>Row = 1, Col = 1\<rparr>)
       (Col \<lparr>Row = 1, Col = 1\<rparr>) +
     (0x880 + 2 * ucast (SlotOffsetPerPort wrap_StrmMod) +
      1 * ucast (SlotOffset wrap_StrmMod)) = (0x20100840884 :: u64)"
  by code_simp

text \<open>
  Claim C6, amended. For a valid slot request (device ready, arbitration, select, mask and
  packet id in range, tile type resolved, port type below the sentinel, slot number below
  the number of slots, port number below the port count of the type) the slot
  configurator returns \<open>XAIE_OK\<close> and appends exactly one write. Its address is the
  device base plus the tile address plus the slot base of the port type plus
  \<open>SlvPortNum * SlotOffsetPerPort\<close> plus \<open>SlotNum * SlotOffset\<close>, each product reduced
  modulo \<open>2 ^ 32\<close> (the products are unsigned 32-bit) and the sum taken in 64 bits; when
  neither product reaches \<open>2 ^ 32\<close> the offset is the sum of the formula itself. The
  word written packs packet id, mask, slot-enable 1, select and arbitration into their
  fields when \<open>Enable\<close> is \<open>XAIE_ENABLE\<close>, and is 0 otherwise.
\<close>

theorem SlaveSlotConfig_write:
  assumes "DevInst = Some D" and "IsReady D = XAIE_COMPONENT_IS_READY X"
    and "Arbitor \<le> XAIE_SS_ARBITOR_MAX" and "MSel \<le> XAIE_SS_MSEL_MAX"
    and "MaskVal \<le> 0x1F" and "PktId Pkt \<le> XAIE_PACKETID_MAX"
    and "XAie_GetTileTypefromLoc X D Loc \<noteq> XAIEGBL_TILE_TYPE_MAX X"
    and "StrmMod = StrmSw D (XAie_GetTileTypefromLoc X D Loc)"
    and "Slave < SS_PORT_TYPE_MAX X" and "SlotNum < NumSlaveSlots StrmMod"
    and "StrmPort_at (SlvConfig StrmMod) Slave = Some PS" and "SlvPortNum < NumPorts PS"
    and "StrmPort_at (SlvSlotConfig StrmMod) Slave = Some PSlot"
  shows "XAie_StrmSlaveSlotConfig X DevInst Loc Slave SlvPortNum SlotNum Pkt MaskVal MSel
        Arbitor Enable s =
      (Return XAIE_OK,
       s @ [(BaseAddr D + XAie_GetTileAddr X D (Row Loc) (Col Loc) +
               ucast (PortBaseAddr PSlot) +
               ucast (ucast SlvPortNum * SlotOffsetPerPort StrmMod) +
               ucast (ucast SlotNum * SlotOffset StrmMod),
             if Enable = XAIE_ENABLE
             then
               XAie_SetField (ucast (PktId Pkt)) (Lsb (SlotPktId StrmMod))
                 (Mask (SlotPktId StrmMod)) OR
               XAie_SetField (ucast MaskVal) (Lsb (SlotMask StrmMod))
                 (Mask (SlotMask StrmMod)) OR
               XAie_SetField 1 (Lsb (SlotEn StrmMod)) (Mask (SlotEn StrmMod)) OR
               XAie_SetField (ucast MSel) (Lsb (SlotMsel StrmMod))
                 (Mask (SlotMsel StrmMod)) OR
               XAie_SetField (ucast Arbitor) (Lsb (SlotArbitor StrmMod))
                 (Mask (SlotArbitor StrmMod))
             else 0)]) \<and>
    BaseAddr D + XAie_GetTileAddr X D (Row Loc) (Col Loc) +
      ucast (PortBaseAddr PSlot) +
      ucast (ucast SlvPortNum * SlotOffsetPerPort StrmMod) +
      ucast (ucast SlotNum * SlotOffset StrmMod) =
    BaseAddr D + XAie_GetTileAddr X D (Row Loc) (Col Loc) +
      of_nat (unat (PortBaseAddr PSlot) +
              unat SlvPortNum * unat (SlotOffsetPerPort StrmMod) mod 2 ^ 32 +
              unat SlotNum * unat (SlotOffset StrmMod) mod 2 ^ 32) \<and>
    (unat SlvPortNum * unat (SlotOffsetPerPort StrmMod) < 2 ^ 32 \<and>
     unat SlotNum * unat (SlotOffset StrmMod) < 2 ^ 32 \<longrightarrow>
       BaseAddr D + XAie_GetTileAddr X D (Row Loc) (Col Loc) +
         ucast (PortBaseAddr PSlot) +
         ucast (ucast SlvPortNum * SlotOffsetPerPort StrmMod) +
         ucast (ucast SlotNum * SlotOffset StrmMod) =
       BaseAddr D + XAie_GetTileAddr X D (Row Loc) (Col Loc) +
         of_nat (unat (PortBaseAddr PSlot) +
                 unat SlvPortNum * unat (SlotOffsetPerPort StrmMod) +
                 unat SlotNum * unat (SlotOffset StrmMod)))"
proof (intro conjI impI)
  from assms(5) have "\<not> MaskVal AND NOT XAIE_SS_MASK \<noteq> 0"
    by (simp only: Mask_check_iff not_less)
  with assms show "XAie_StrmSlaveSlotConfig X DevInst Loc Slave SlvPortNum SlotNum Pkt MaskVal
        MSel Arbitor Enable s =
      (Return XAIE_OK,
       s @ [(BaseAddr D + XAie_GetTileAddr X D (Row Loc) (Col Loc) +
               ucast (PortBaseAddr PSlot) +
               ucast (ucast SlvPortNum * SlotOffsetPerPort StrmMod) +
               ucast (ucast SlotNum * SlotOffset StrmMod),
             if Enable = XAIE_ENABLE
             then
               XAie_SetField (ucast (PktId Pkt)) (Lsb (SlotPktId StrmMod))
                 (Mask (SlotPktId StrmMod)) OR
               XAie_SetField (ucast MaskVal) (Lsb (SlotMask StrmMod))
                 (Mask (SlotMask StrmMod)) OR
               XAie_SetField 1 (Lsb (SlotEn StrmMod)) (Mask (SlotEn StrmMod)) OR
               XAie_SetField (ucast MSel) (Lsb (SlotMsel StrmMod))
                 (Mask (SlotMsel StrmMod)) OR
               XAie_SetField (ucast Arbitor) (Lsb (SlotArbitor StrmMod))
                 (Mask (SlotArbitor StrmMod))
             else 0)])"
    by (simp add: XAie_StrmSlaveSlotConfig_def SlaveSlotRegVal_def XAieGbl_Write32_def Let_def
        XAIE_ENABLE_def not_le not_less)
next
  have "(ucast (PortBaseAddr PSlot) :: u64) +
         ucast (ucast SlvPortNum * SlotOffsetPerPort StrmMod) +
         ucast (ucast SlotNum * SlotOffset StrmMod) =
       of_nat (unat (PortBaseAddr PSlot) +
                 unat SlvPortNum * unat (SlotOffsetPerPort StrmMod) mod 2 ^ 32 +
                 unat SlotNum * unat (SlotOffset StrmMod) mod 2 ^ 32)"
    by (rule slot_offset_nat_mod)
  then show "BaseAddr D + XAie_GetTileAddr X D (Row Loc) (Col Loc) +
         ucast (PortBaseAddr PSlot) +
         ucast (ucast SlvPortNum * SlotOffsetPerPort StrmMod) +
         ucast (ucast SlotNum * SlotOffset StrmMod) =
       BaseAddr D + XAie_GetTileAddr X D (Row Loc) (Col Loc) +
         of_nat (unat (PortBaseAddr PSlot) +
                 unat SlvPortNum * unat (SlotOffsetPerPort StrmMod) mod 2 ^ 32 +
                 unat SlotNum * unat (SlotOffset StrmMod) mod 2 ^ 32)"
    by (simp only: add.assoc)
next
  assume "unat SlvPortNum * unat (SlotOffsetPerPort StrmMod) < 2 ^ 32 \<and>
     unat SlotNum * unat (SlotOffset StrmMod) < 2 ^ 32"
  then have "(ucast (PortBaseAddr PSlot) :: u64) +
         ucast (ucast SlvPortNum * SlotOffsetPerPort StrmMod) +
         ucast (ucast SlotNum * SlotOffset StrmMod) =
       of_nat (unat (PortBaseAddr PSlot) +
                 unat SlvPortNum * unat (SlotOffsetPerPort StrmMod) +
                 unat SlotNum * unat (SlotOffset StrmMod))"
    by (simp only: slot_offset_nat)
  then show "BaseAddr D + XAie_GetTileAddr X D (Row Loc) (Col Loc) +
         ucast (PortBaseAddr PSlot) +
         ucast (ucast SlvPortNum * SlotOffsetPerPort StrmMod) +
         ucast (ucast SlotNum * SlotOffset StrmMod) =
       BaseAddr D + XAie_GetTileAddr X D (Row Loc) (Col Loc) +
         of_nat (unat (PortBaseAddr PSlot) +
                 unat SlvPortNum * unat (SlotOffsetPerPort StrmMod) +
                 unat SlotNum * unat (SlotOffset StrmMod))"
    by (simp only: add.assoc)
qed


theorem SlaveSlotConfig_write_witness:
  "XAie_StrmPktSwSlaveSlotEnable ex_Globals (Some ex_DevInst) \<lparr>Row = 1, Col = 1\<rparr> CORE 0 3
     \<lparr>PktId = 5, PktType = 0\<rparr> 0x1F 2 3 [] =
     (Return XAIE_OK, [(0x20000840000 + 0x80C, 0x051F0123)]) \<and>
   XAie_StrmPktSwSlaveSlotDisable ex_Globals (Some ex_DevInst) \<lparr>Row = 1, Col = 1\<rparr> CORE 0 3 [] =
     (Return XAIE_OK, [(0x20000840000 + 0x80C, 0)]) \<and>
   (0x20000840000 + 0x80C :: u64) = 0x20000840000 + of_nat (0x800 + 0 * 0x40 + 3 * 0x4)"
proof -
  let ?L = "\<lparr>Row = 1, Col = 1\<rparr>"
  let ?P = "\<lparr>PktId = 5, PktType = 0\<rparr>"
  let ?PS = "\<lparr>NumPorts = 2, PortBaseAddr = 0x100\<rparr>"
  let ?PSlot = "\<lparr>NumPorts = 2, PortBaseAddr = 0x800\<rparr>"
  have dev: "Some ex_DevInst = Some ex_DevInst"
    and ready: "IsReady ex_DevInst = XAIE_COMPONENT_IS_READY ex_Globals"
    and tile: "XAie_GetTileTypefromLoc ex_Globals ex_DevInst ?L \<noteq>
      XAIEGBL_TILE_TYPE_MAX ex_Globals"
    and md: "ex_StrmMod = StrmSw ex_DevInst (XAie_GetTileTypefromLoc ex_Globals ex_DevInst ?L)"
    by (simp_all add: ex_DevInst_def ex_Globals_def)
  have tag: "CORE < SS_PORT_TYPE_MAX ex_Globals" and slot: "3 < NumSlaveSlots ex_StrmMod"
    and ps: "StrmPort_at (SlvConfig ex_StrmMod) CORE = Some ?PS"
    and port: "0 < NumPorts ?PS"
    and pslot: "StrmPort_at (SlvSlotConfig ex_StrmMod) CORE = Some ?PSlot"
    by code_simp+
  have en: "(3 :: u8) \<le> XAIE_SS_ARBITOR_MAX" "(2 :: u8) \<le> XAIE_SS_MSEL_MAX"
    "(0x1F :: u8) \<le> 0x1F" "PktId ?P \<le> XAIE_PACKETID_MAX"
    and dis: "(0 :: u8) \<le> XAIE_SS_ARBITOR_MAX" "(0 :: u8) \<le> XAIE_SS_MSEL_MAX"
    "(0 :: u8) \<le> 0x1F" "PktId (XAie_PacketInit 0 0) \<le> XAIE_PACKETID_MAX"
    by (simp_all add: XAIE_SS_ARBITOR_MAX_def XAIE_SS_MSEL_MAX_def XAIE_PACKETID_MAX_def
        XAie_PacketInit_def)
  have fit: "unat (0 :: u8) * unat (SlotOffsetPerPort ex_StrmMod) < 2 ^ 32 \<and>
      unat (3 :: u8) * unat (SlotOffset ex_StrmMod) < 2 ^ 32"
    by (simp add: ex_StrmMod_def)
  note on = SlaveSlotConfig_write [OF dev ready en tile md tag slot ps port pslot,
      of XAIE_ENABLE "[]"]
  note off = SlaveSlotConfig_write [OF dev ready dis tile md tag slot ps port pslot,
      of XAIE_DISABLE "[]"]
  have addr: "BaseAddr ex_DevInst + XAie_GetTileAddr ex_Globals ex_DevInst (Row ?L) (Col ?L) +
      ucast (PortBaseAddr ?PSlot) + ucast (ucast (0 :: u8) * SlotOffsetPerPort ex_StrmMod) +
      ucast (ucast (3 :: u8) * SlotOffset ex_StrmMod) = 0x20000840000 + 0x80C"
    and val: "XAie_SetField (ucast (PktId ?P)) (Lsb (SlotPktId ex_StrmMod))
        (Mask (SlotPktId ex_StrmMod)) OR
      XAie_SetField (ucast (0x1F :: u8)) (Lsb (SlotMask ex_StrmMod)) (Mask (SlotMask ex_StrmMod)) OR
      XAie_SetField 1 (Lsb (SlotEn ex_StrmMod)) (Mask (SlotEn ex_StrmMod)) OR
      XAie_SetField (ucast (2 :: u8)) (Lsb (SlotMsel ex_StrmMod)) (Mask (SlotMsel ex_StrmMod)) OR
      XAie_SetField (ucast (3 :: u8)) (Lsb (SlotArbitor ex_StrmMod))
        (Mask (SlotArbitor ex_StrmMod)) = 0x051F0123"
    and base: "BaseAddr ex_DevInst + XAie_GetTileAddr ex_Globals ex_DevInst (Row ?L) (Col ?L) =
      0x20000840000"
    and nat: "unat (PortBaseAddr ?PSlot) + unat (0 :: u8) * unat (SlotOffsetPerPort ex_StrmMod) +
      unat (3 :: u8) * unat (SlotOffset ex_StrmMod) = 0x800 + 0 * 0x40 + 3 * 0x4"
    and neq: "XAIE_DISABLE \<noteq> XAIE_ENABLE"
    by code_simp+
  from on addr val have "XAie_StrmPktSwSlaveSlotEnable ex_Globals (Some ex_DevInst) ?L CORE 0 3
      ?P 0x1F 2 3 [] = (Return XAIE_OK, [(0x20000840000 + 0x80C, 0x051F0123)])"
    by (simp add: XAie_StrmPktSwSlaveSlotEnable_def)
  moreover from off addr neq
  have "XAie_StrmPktSwSlaveSlotDisable ex_Globals (Some ex_DevInst) ?L CORE 0 3 [] =
      (Return XAIE_OK, [(0x20000840000 + 0x80C, 0)])"
    by (simp add: XAie_StrmPktSwSlaveSlotDisable_def)
  moreover from on fit addr base nat
  have "(0x20000840000 + 0x80C :: u64) = 0x20000840000 + of_nat (0x800 + 0 * 0x40 + 3 * 0x4)"
    by simp
  ultimately show ?thesis
    by blast
qed

section \<open>The configuration word of a packet switch master port\<close>

text \<open>
  Claim C7, as stated, fails: the assembled word is 32 bits wide and the master builder
  takes a \<open>u8\<close>. In \<open>hdr8_StrmMod\<close> the drop-header field is bit 8; for drop-header 1,
  arbitration 5 and select-enable 3 the assembled word is \<open>0x11D\<close>, the builder receives
  \<open>0x1D\<close>, and the committed register \<open>0xC000001D\<close> has the drop-header field 0.
\<close>

theorem PktSwMstrPortEnable_config_word_counterexample:
  "XAIE_SS_ARBITOR_MAX \<ge> 5 \<and> XAIE_SS_MSELEN_MAX \<ge> 3 \<and>
   PktSwMstrConfigWord hdr8_StrmMod 1 5 3 XAIE_ENABLE = 0x11D \<and>
   XAie_GetField 0x11D (Lsb (DrpHdr hdr8_StrmMod)) (Mask (DrpHdr hdr8_StrmMod)) = 1 \<and>
   XAie_StrmPktSwMstrPortEnable ex_Globals (Some hdr8_DevInst) \<lparr>Row = 1, Col = 1\<rparr> CORE 1 1 5 3
     [] = (Return XAIE_OK, [(0x20000840004, 0xC000001D)]) \<and>
   StrmConfigMstr hdr8_StrmMod CORE 1 XAIE_ENABLE XAIE_ENABLE 0x1D = Inr (0xC000001D, 0x4) \<and>
   XAie_GetField 0xC000001D (Lsb (DrpHdr hdr8_StrmMod)) (Mask (DrpHdr hdr8_StrmMod)) = 0"
  by code_simp

lemma ARBITOR_MASK_mask: "XAIE_SS_MASTER_PORT_ARBITOR_MASK = mask 3"
  and MSELEN_MASK_mask: "XAIE_SS_MASTER_PORT_MSELEN_MASK = push_bit 3 (mask 4)"
  by (simp_all add: XAIE_SS_MASTER_PORT_ARBITOR_MASK_def XAIE_SS_MASTER_PORT_MSELEN_MASK_def
      mask_eq_exp_minus_1)

lemma in_range_fields_packed:
  fixes Arbitor MSelEn :: u8
  assumes "Arbitor \<le> XAIE_SS_ARBITOR_MAX" and "MSelEn \<le> XAIE_SS_MSELEN_MAX"
  shows "XAie_SetField (ucast Arbitor) XAIE_SS_MASTER_PORT_ARBITOR_LSB
           XAIE_SS_MASTER_PORT_ARBITOR_MASK = ucast Arbitor"
    and "XAie_SetField (ucast MSelEn) XAIE_SS_MASTER_PORT_MSELEN_LSB
           XAIE_SS_MASTER_PORT_MSELEN_MASK = push_bit 3 (ucast MSelEn)"
proof -
  from assms have "uint Arbitor < 2 ^ 3" and "uint MSelEn < 2 ^ 4"
    by (simp_all add: XAIE_SS_ARBITOR_MAX_def XAIE_SS_MSELEN_MAX_def word_le_def)
  then have a: "Arbitor AND mask 3 = Arbitor" and m: "MSelEn AND mask 4 = MSelEn"
    by (simp_all only: mask_eq_iff)
  have "(ucast (Arbitor AND mask 3) :: u32) AND mask 3 = ucast (Arbitor AND mask 3)"
    by (rule bit_word_eqI) (auto simp add: bit_simps)
  with a show "XAie_SetField (ucast Arbitor) XAIE_SS_MASTER_PORT_ARBITOR_LSB
           XAIE_SS_MASTER_PORT_ARBITOR_MASK = ucast Arbitor"
    by (simp add: XAie_SetField_def XAIE_SS_MASTER_PORT_ARBITOR_LSB_def ARBITOR_MASK_mask)
  have "push_bit 3 (ucast (MSelEn AND mask 4) :: u32) AND push_bit 3 (mask 4) =
      push_bit 3 (ucast (MSelEn AND mask 4))"
    by (rule bit_word_eqI) (auto simp add: bit_simps)
  with m show "XAie_SetField (ucast MSelEn) XAIE_SS_MASTER_PORT_MSELEN_LSB
           XAIE_SS_MASTER_PORT_MSELEN_MASK = push_bit 3 (ucast MSelEn)"
    by (simp add: XAie_SetField_def XAIE_SS_MASTER_PORT_MSELEN_LSB_def MSELEN_MASK_mask)
qed

lemma config_word_fits_u8:
  fixes M :: u32
  assumes "M \<le> 0xFF"
  shows "(ucast (ucast (XAie_SetField V L M OR
            XAie_SetField A XAIE_SS_MASTER_PORT_ARBITOR_LSB XAIE_SS_MASTER_PORT_ARBITOR_MASK OR
            XAie_SetField B XAIE_SS_MASTER_PORT_MSELEN_LSB XAIE_SS_MASTER_PORT_MSELEN_MASK)
              :: u8) :: u32) =
          XAie_SetField V L M OR
          XAie_SetField A XAIE_SS_MASTER_PORT_ARBITOR_LSB XAIE_SS_MASTER_PORT_ARBITOR_MASK OR
          XAie_SetField B XAIE_SS_MASTER_PORT_MSELEN_LSB XAIE_SS_MASTER_PORT_MSELEN_MASK"
proof -
  from assms have "uint M < 2 ^ 8"
    by (simp add: word_le_def)
  then have "M AND mask 8 = M"
    by (simp only: mask_eq_iff)
  then have M: "\<And>n. bit M n \<Longrightarrow> n < 8"
    by (metis bit_and_iff bit_mask_iff)
  show ?thesis
    unfolding XAie_SetField_def ARBITOR_MASK_mask MSELEN_MASK_mask
    by (rule bit_word_eqI) (auto simp add: bit_simps dest: M)
qed


text \<open>
  Claim C7, amended. For an enabling call of the master port configurator with a ready
  device, arbitration at most 7, select-enable at most 15 and a valid port, the word
  \<open>W\<close> assembled is drop-header packed into the drop-header field of the descriptor,
  arbitration in the three bits from bit 0 and select-enable in the four bits from bit 3.
  The master builder receives the low eight bits of \<open>W\<close>, with packet mode enabled, and
  the call commits one write of the builder's word for them. Whenever the drop-header
  mask of the descriptor lies within the low eight bits, the low eight bits are \<open>W\<close>
  itself.
\<close>

theorem PktSwMstrPortEnable_config_word:
  assumes "IsReady D = XAIE_COMPONENT_IS_READY X"
    and "Arbitor \<le> XAIE_SS_ARBITOR_MAX" and "MSelEn \<le> XAIE_SS_MSELEN_MAX"
    and "Master < SS_PORT_TYPE_MAX X"
    and "XAie_GetTileTypefromLoc X D Loc \<noteq> XAIEGBL_TILE_TYPE_MAX X"
    and "StrmMod = StrmSw D (XAie_GetTileTypefromLoc X D Loc)"
    and "StrmPort_at (MstrConfig StrmMod) Master = Some P"
    and "NumPorts P \<noteq> 0" and "MstrPortNum < NumPorts P"
    and "W = XAie_SetField DropHeader (Lsb (DrpHdr StrmMod)) (Mask (DrpHdr StrmMod)) OR
           ucast Arbitor OR push_bit 3 (ucast MSelEn)"
    and "Cfg = (ucast W :: u8)"
    and "RegVal =
           XAie_SetField 1 (Lsb (MstrEn StrmMod)) (Mask (MstrEn StrmMod)) OR
           XAie_SetField 1 (Lsb (MstrPktEn StrmMod)) (Mask (MstrPktEn StrmMod)) OR
           XAie_SetField
             (XAie_GetField (ucast Cfg) (Lsb (DrpHdr StrmMod)) (Mask (DrpHdr StrmMod)))
             (Lsb (DrpHdr StrmMod)) (Mask (DrpHdr StrmMod)) OR
           XAie_SetField (ucast Cfg) (Lsb (Config StrmMod)) (Mask (Config StrmMod))"
    and "RegOff = PortBaseAddr P + PortOffset StrmMod * ucast MstrPortNum"
  shows "PktSwMstrConfigWord StrmMod DropHeader Arbitor MSelEn XAIE_ENABLE = W \<and>
    StrmConfigMstr StrmMod Master MstrPortNum XAIE_ENABLE XAIE_ENABLE Cfg =
      Inr (RegVal, RegOff) \<and>
    XAie_StrmPktSwMstrPortEnable X (Some D) Loc Master MstrPortNum DropHeader Arbitor MSelEn s =
      (Return XAIE_OK,
       s @ [(BaseAddr D + XAie_GetTileAddr X D (Row Loc) (Col Loc) + ucast RegOff, RegVal)]) \<and>
    (Mask (DrpHdr StrmMod) \<le> 0xFF \<longrightarrow> ucast Cfg = W)"
proof (intro conjI impI)
  show W: "PktSwMstrConfigWord StrmMod DropHeader Arbitor MSelEn XAIE_ENABLE = W"
    using assms(2,3,10) by (simp add: PktSwMstrConfigWord_def in_range_fields_packed)
  from assms(9) have "\<not> NumPorts P \<le> MstrPortNum"
    by simp
  with assms(7,8,12,13)
  show run: "StrmConfigMstr StrmMod Master MstrPortNum XAIE_ENABLE XAIE_ENABLE Cfg =
      Inr (RegVal, RegOff)"
    by (simp add: StrmConfigMstr_def XAIE_ENABLE_def DropHdr_narrowing)
  from assms(2,3) have "\<not> (XAIE_SS_ARBITOR_MAX < Arbitor \<or> XAIE_SS_MSELEN_MAX < MSelEn)"
    by (simp add: not_less)
  with assms(1,4,5) run W
  show "XAie_StrmPktSwMstrPortEnable X (Some D) Loc Master MstrPortNum DropHeader Arbitor
      MSelEn s =
      (Return XAIE_OK,
       s @ [(BaseAddr D + XAie_GetTileAddr X D (Row Loc) (Col Loc) + ucast RegOff, RegVal)])"
    unfolding assms(6,11) XAie_StrmPktSwMstrPortEnable_def XAie_StrmPktSwMstrPortConfig_def
    by (simp add: XAieGbl_Write32_def Let_def not_le)
next
  assume "Mask (DrpHdr StrmMod) \<le> 0xFF"
  then have "ucast (ucast (XAie_SetField DropHeader (Lsb (DrpHdr StrmMod))
        (Mask (DrpHdr StrmMod)) OR
      XAie_SetField (ucast Arbitor) XAIE_SS_MASTER_PORT_ARBITOR_LSB
        XAIE_SS_MASTER_PORT_ARBITOR_MASK OR
      XAie_SetField (ucast MSelEn) XAIE_SS_MASTER_PORT_MSELEN_LSB
        XAIE_SS_MASTER_PORT_MSELEN_MASK) :: u8) =
    XAie_SetField DropHeader (Lsb (DrpHdr StrmMod)) (Mask (DrpHdr StrmMod)) OR
      XAie_SetField (ucast Arbitor) XAIE_SS_MASTER_PORT_ARBITOR_LSB
        XAIE_SS_MASTER_PORT_ARBITOR_MASK OR
      XAie_SetField (ucast MSelEn) XAIE_SS_MASTER_PORT_MSELEN_LSB
        XAIE_SS_MASTER_PORT_MSELEN_MASK"
    by (rule config_word_fits_u8)
  with assms(2,3,10,11) show "ucast Cfg = W"
    by (simp add: in_range_fields_packed)
qed

theorem PktSwMstrPortEnable_config_word_witness:
  "PktSwMstrConfigWord ex_StrmMod 1 5 3 XAIE_ENABLE = 0x9D \<and>
   StrmConfigMstr ex_StrmMod CORE 1 XAIE_ENABLE XAIE_ENABLE 0x9D = Inr (0xC000009D, 0x4) \<and>
   XAie_StrmPktSwMstrPortEnable ex_Globals (Some ex_DevInst) \<lparr>Row = 1, Col = 1\<rparr> CORE 1 1 5 3
     [] = (Return XAIE_OK, [(0x20000840004, 0xC000009D)]) \<and>
   (ucast (0x9D :: u8) :: u32) = 0x9D"
proof -
  let ?L = "\<lparr>Row = 1, Col = 1\<rparr>"
  let ?P = "\<lparr>NumPorts = 2, PortBaseAddr = 0x0\<rparr>"
  have ready: "IsReady ex_DevInst = XAIE_COMPONENT_IS_READY ex_Globals"
    and tile: "XAie_GetTileTypefromLoc ex_Globals ex_DevInst ?L \<noteq>
      XAIEGBL_TILE_TYPE_MAX ex_Globals"
    and md: "ex_StrmMod = StrmSw ex_DevInst (XAie_GetTileTypefromLoc ex_Globals ex_DevInst ?L)"
    by (simp_all add: ex_DevInst_def ex_Globals_def)
  have arb: "(5 :: u8) \<le> XAIE_SS_ARBITOR_MAX" and msel: "(3 :: u8) \<le> XAIE_SS_MSELEN_MAX"
    and tag: "CORE < SS_PORT_TYPE_MAX ex_Globals"
    and at: "StrmPort_at (MstrConfig ex_StrmMod) CORE = Some ?P"
    and n: "NumPorts ?P \<noteq> 0" and p: "1 < NumPorts ?P"
    and w: "(0x9D :: u32) =
      XAie_SetField 1 (Lsb (DrpHdr ex_StrmMod)) (Mask (DrpHdr ex_StrmMod)) OR
        ucast (5 :: u8) OR push_bit 3 (ucast (3 :: u8))"
    and c: "(0x9D :: u8) = ucast (0x9D :: u32)"
    and v: "(0xC000009D :: u32) =
      XAie_SetField 1 (Lsb (MstrEn ex_StrmMod)) (Mask (MstrEn ex_StrmMod)) OR
      XAie_SetField 1 (Lsb (MstrPktEn ex_StrmMod)) (Mask (MstrPktEn ex_StrmMod)) OR
      XAie_SetField
        (XAie_GetField (ucast (0x9D :: u8)) (Lsb (DrpHdr ex_StrmMod)) (Mask (DrpHdr ex_StrmMod)))
        (Lsb (DrpHdr ex_StrmMod)) (Mask (DrpHdr ex_StrmMod)) OR
      XAie_SetField (ucast (0x9D :: u8)) (Lsb (Config ex_StrmMod)) (Mask (Config ex_StrmMod))"
    and off: "(0x4 :: u32) = PortBaseAddr ?P + PortOffset ex_StrmMod * ucast (1 :: u8)"
    and low: "Mask (DrpHdr ex_StrmMod) \<le> 0xFF"
    and addr: "BaseAddr ex_DevInst + XAie_GetTileAddr ex_Globals ex_DevInst (Row ?L) (Col ?L) +
      ucast (0x4 :: u32) = 0x20000840004"
    by code_simp+
  from PktSwMstrPortEnable_config_word [OF ready arb msel tag tile md at n p w c v off, of "[]"]
    low addr
  show ?thesis
    by simp
qed

section \<open>Return codes of the validation failures\<close>

text \<open>
  Claim C8, as stated, fails: the driver has three error codes for the five kinds of
  failure. A null device and an arbitration of 8 on a ready device both end in
  \<open>XAIE_INVALID_ARGS\<close>; the port type tag 9 (the sentinel) and the port number 2 of a
  type with two ports both end in \<open>XAIE_ERR_STREAM_PORT\<close>.
\<close>

theorem error_kinds_counterexample:
  "XAie_StrmPktSwMstrPortEnable ex_Globals None \<lparr>Row = 1, Col = 1\<rparr> CORE 1 1 5 3 [] =
     (Return XAIE_INVALID_ARGS, []) \<and>
   XAie_StrmPktSwMstrPortEnable ex_Globals (Some ex_DevInst) \<lparr>Row = 1, Col = 1\<rparr> CORE 1 1 8 3 [] =
     (Return XAIE_INVALID_ARGS, []) \<and>
   XAie_StrmPktSwSlavePortEnable ex_Globals (Some ex_DevInst) \<lparr>Row = 1, Col = 1\<rparr> 9 0 [] =
     (Return XAIE_ERR_STREAM_PORT, []) \<and>
   XAie_StrmPktSwSlavePortEnable ex_Globals (Some ex_DevInst) \<lparr>Row = 1, Col = 1\<rparr> CORE 2 [] =
     (Return XAIE_ERR_STREAM_PORT, [])"
  by code_simp

text \<open>
  Claim C8, amended. Every validation failure of the four configurators ends in one of
  three codes, that of the first check that fails, with the bus unchanged:
  \<open>XAIE_INVALID_ARGS\<close> for a null or not ready device and for a field value out of range
  (arbitration, select-enable, select, mask, packet id); \<open>XAIE_ERR_STREAM_PORT\<close> for a
  port type tag at or beyond the sentinel and for a port or slot number out of range;
  \<open>XAIE_INVALID_TILE\<close> for a location that resolves to no tile type.
\<close>

theorem validation_failure_codes:
  assumes "Cct = XAie_StreamSwitchConfigureCct X DevInst Loc Slave SlvPortNum Master MstrPortNum
             Enable s"
    and "SlvP = XAie_StrmSlavePortConfig X DevInst Loc Slave SlvPortNum EnPkt Enable s"
    and "MstrP = XAie_StrmPktSwMstrPortConfig X DevInst Loc Master MstrPortNum DropHeader
             Arbitor MSelEn PktEn Enable s"
    and "Slot = XAie_StrmSlaveSlotConfig X DevInst Loc Slave SlvPortNum SlotNum Pkt MaskVal MSel
             Arbitor Enable s"
    and "StrmMod = StrmSw D (XAie_GetTileTypefromLoc X D Loc)"
  shows
    "(DevInst = None \<or> DevInst = Some D \<and> IsReady D \<noteq> XAIE_COMPONENT_IS_READY X \<longrightarrow>
        Cct = (Return XAIE_INVALID_ARGS, s) \<and> SlvP = (Return XAIE_INVALID_ARGS, s) \<and>
        MstrP = (Return XAIE_INVALID_ARGS, s) \<and> Slot = (Return XAIE_INVALID_ARGS, s)) \<and>
     (DevInst = Some D \<and> IsReady D = XAIE_COMPONENT_IS_READY X \<longrightarrow>
        (XAIE_SS_ARBITOR_MAX < Arbitor \<or> XAIE_SS_MSELEN_MAX < MSelEn \<longrightarrow>
           MstrP = (Return XAIE_INVALID_ARGS, s)) \<and>
        (XAIE_SS_ARBITOR_MAX < Arbitor \<or> XAIE_SS_MSEL_MAX < MSel \<or> 0x1F < MaskVal \<or>
         XAIE_PACKETID_MAX < PktId Pkt \<longrightarrow>
           Slot = (Return XAIE_INVALID_ARGS, s)) \<and>
        (SS_PORT_TYPE_MAX X \<le> Slave \<or> SS_PORT_TYPE_MAX X \<le> Master \<longrightarrow>
           Cct = (Return XAIE_ERR_STREAM_PORT, s)) \<and>
        (SS_PORT_TYPE_MAX X \<le> Slave \<longrightarrow> SlvP = (Return XAIE_ERR_STREAM_PORT, s)) \<and>
        (Arbitor \<le> XAIE_SS_ARBITOR_MAX \<and> MSelEn \<le> XAIE_SS_MSELEN_MAX \<and>
         SS_PORT_TYPE_MAX X \<le> Master \<longrightarrow>
           MstrP = (Return XAIE_ERR_STREAM_PORT, s)) \<and>
        (Arbitor \<le> XAIE_SS_ARBITOR_MAX \<and> MSel \<le> XAIE_SS_MSEL_MAX \<and> MaskVal \<le> 0x1F \<and>
         PktId Pkt \<le> XAIE_PACKETID_MAX \<and>
         XAie_GetTileTypefromLoc X D Loc \<noteq> XAIEGBL_TILE_TYPE_MAX X \<and>
         (SS_PORT_TYPE_MAX X \<le> Slave \<or> NumSlaveSlots StrmMod \<le> SlotNum \<or>
          (\<exists>PS. StrmPort_at (SlvConfig StrmMod) Slave = Some PS \<and>
             NumPorts PS \<le> SlvPortNum)) \<longrightarrow>
           Slot = (Return XAIE_ERR_STREAM_PORT, s)) \<and>
        (XAie_GetTileTypefromLoc X D Loc = XAIEGBL_TILE_TYPE_MAX X \<longrightarrow>
           (Slave < SS_PORT_TYPE_MAX X \<and> Master < SS_PORT_TYPE_MAX X \<longrightarrow>
              Cct = (Return XAIE_INVALID_TILE, s)) \<and>
           (Slave < SS_PORT_TYPE_MAX X \<longrightarrow> SlvP = (Return XAIE_INVALID_TILE, s)) \<and>
           (Arbitor \<le> XAIE_SS_ARBITOR_MAX \<and> MSelEn \<le> XAIE_SS_MSELEN_MAX \<and>
            Master < SS_PORT_TYPE_MAX X \<longrightarrow>
              MstrP = (Return XAIE_INVALID_TILE, s)) \<and>
           (Arbitor \<le> XAIE_SS_ARBITOR_MAX \<and> MSel \<le> XAIE_SS_MSEL_MAX \<and> MaskVal \<le> 0x1F \<and>
            PktId Pkt \<le> XAIE_PACKETID_MAX \<longrightarrow>
              Slot = (Return XAIE_INVALID_TILE, s))) \<and>
        (XAie_GetTileTypefromLoc X D Loc \<noteq> XAIEGBL_TILE_TYPE_MAX X \<and>
         StrmPort_at (SlvConfig StrmMod) Slave = Some PS \<and>
         (NumPorts PS = 0 \<or> NumPorts PS \<le> SlvPortNum) \<longrightarrow>
           Cct = (Return XAIE_ERR_STREAM_PORT, s) \<and> SlvP = (Return XAIE_ERR_STREAM_PORT, s)) \<and>
        (XAie_GetTileTypefromLoc X D Loc \<noteq> XAIEGBL_TILE_TYPE_MAX X \<and>
         StrmPort_at (MstrConfig StrmMod) Master = Some PM \<and>
         (NumPorts PM = 0 \<or> NumPorts PM \<le> MstrPortNum) \<longrightarrow>
           (StrmPort_at (SlvConfig StrmMod) Slave = Some PS \<longrightarrow>
              Cct = (Return XAIE_ERR_STREAM_PORT, s)) \<and>
           (Arbitor \<le> XAIE_SS_ARBITOR_MAX \<and> MSelEn \<le> XAIE_SS_MSELEN_MAX \<longrightarrow>
              MstrP = (Return XAIE_ERR_STREAM_PORT, s))))"
  unfolding assms
  by (intro conjI impI; elim conjE disjE exE;
      simp add: XAie_StreamSwitchConfigureCct_def XAie_StrmSlavePortConfig_def
        XAie_StrmPktSwMstrPortConfig_def XAie_StrmSlaveSlotConfig_def XAie_GetSlaveIdx_def
        XAie_StrmConfigSlv_def StrmConfigMstr_def Mask_check_iff Let_def not_le not_less)


theorem validation_failure_codes_witness:
  "XAie_StrmPktSwSlaveSlotDisable ex_Globals None \<lparr>Row = 1, Col = 1\<rparr> CORE 0 3 [] =
     (Return XAIE_INVALID_ARGS, []) \<and>
   XAie_StrmPktSwSlaveSlotEnable ex_Globals (Some ex_DevInst) \<lparr>Row = 1, Col = 1\<rparr> CORE 0 3
     \<lparr>PktId = 5, PktType = 0\<rparr> 0x20 2 3 [] = (Return XAIE_INVALID_ARGS, []) \<and>
   XAie_StrmConnCctEnable ex_Globals (Some ex_DevInst) \<lparr>Row = 1, Col = 1\<rparr> 9 0 CORE 1 [] =
     (Return XAIE_ERR_STREAM_PORT, []) \<and>
   XAie_StrmConnCctEnable ex_Globals (Some ex_DevInst) \<lparr>Row = 1, Col = 1\<rparr> DMA 3 CORE 1 [] =
     (Return XAIE_ERR_STREAM_PORT, []) \<and>
   XAie_StrmConnCctEnable ex_Globals (Some ex_DevInst) \<lparr>Row = 9, Col = 1\<rparr> DMA 0 CORE 1 [] =
     (Return XAIE_INVALID_TILE, [])"
proof -
  let ?L = "\<lparr>Row = 1, Col = 1\<rparr>"
  have ok: "Some ex_DevInst = Some ex_DevInst \<and>
      IsReady ex_DevInst = XAIE_COMPONENT_IS_READY ex_Globals"
    by (simp add: ex_DevInst_def ex_Globals_def)
  note null = validation_failure_codes [OF refl refl refl refl refl,
      where DevInst = None and X = ex_Globals, THEN conjunct1, THEN mp]
  note dev = validation_failure_codes [OF refl refl refl refl refl,
      where DevInst = "Some ex_DevInst" and D = ex_DevInst and X = ex_Globals,
      THEN conjunct2, THEN mp, OF ok]
  have "XAie_StrmSlaveSlotConfig ex_Globals None ?L CORE 0 3 (XAie_PacketInit 0 0) 0 0 0
      XAIE_DISABLE [] = (Return XAIE_INVALID_ARGS, [])"
    by (rule null [THEN conjunct2, THEN conjunct2, THEN conjunct2]) simp
  moreover have "XAie_StrmSlaveSlotConfig ex_Globals (Some ex_DevInst) ?L CORE 0 3
      \<lparr>PktId = 5, PktType = 0\<rparr> 0x20 2 3 XAIE_ENABLE [] = (Return XAIE_INVALID_ARGS, [])"
    by (rule dev [THEN conjunct2, THEN conjunct1, THEN mp]) simp
  moreover have "XAie_StreamSwitchConfigureCct ex_Globals (Some ex_DevInst) ?L 9 0 CORE 1
      XAIE_ENABLE [] = (Return XAIE_ERR_STREAM_PORT, [])"
    by (rule dev [THEN conjunct2, THEN conjunct2, THEN conjunct1, THEN mp])
      (simp add: ex_Globals_def)
  moreover have "XAie_StreamSwitchConfigureCct ex_Globals (Some ex_DevInst) ?L DMA 3 CORE 1
      XAIE_ENABLE [] = (Return XAIE_ERR_STREAM_PORT, [])"
  proof -
    have "XAie_GetTileTypefromLoc ex_Globals ex_DevInst ?L \<noteq> XAIEGBL_TILE_TYPE_MAX ex_Globals \<and>
        StrmPort_at (SlvConfig (StrmSw ex_DevInst
          (XAie_GetTileTypefromLoc ex_Globals ex_DevInst ?L))) DMA =
          Some \<lparr>NumPorts = 3, PortBaseAddr = 0x120\<rparr> \<and>
        (NumPorts \<lparr>NumPorts = 3, PortBaseAddr = 0x120\<rparr> = 0 \<or>
         NumPorts \<lparr>NumPorts = 3, PortBaseAddr = 0x120\<rparr> \<le> 3)"
      by code_simp
    from dev [THEN conjunct2, THEN conjunct2, THEN conjunct2, THEN conjunct2, THEN conjunct2,
        THEN conjunct2, THEN conjunct2, THEN conjunct1, THEN mp, OF this, THEN conjunct1]
    show ?thesis .
  qed
  moreover have "XAie_StreamSwitchConfigureCct ex_Globals (Some ex_DevInst) \<lparr>Row = 9, Col = 1\<rparr>
      DMA 0 CORE 1 XAIE_ENABLE [] = (Return XAIE_INVALID_TILE, [])"
  proof -
    have tile: "XAie_GetTileTypefromLoc ex_Globals ex_DevInst \<lparr>Row = 9, Col = 1\<rparr> =
        XAIEGBL_TILE_TYPE_MAX ex_Globals"
      and tags: "DMA < SS_PORT_TYPE_MAX ex_Globals \<and> CORE < SS_PORT_TYPE_MAX ex_Globals"
      by code_simp+
    from dev [THEN conjunct2, THEN conjunct2, THEN conjunct2, THEN conjunct2, THEN conjunct2,
        THEN conjunct2, THEN conjunct1, THEN mp, OF tile, THEN conjunct1, THEN mp, OF tags]
    show ?thesis .
  qed
  ultimately show ?thesis
    by (simp only: XAie_StrmPktSwSlaveSlotDisable_def XAie_StrmPktSwSlaveSlotEnable_def
        XAie_StrmConnCctEnable_def simp_thms)
qed

section \<open>The order of the checks of the circuit configurator\<close>

text \<open>
  Claim C9, as stated, fails: the port type tags are checked before the tile type is
  resolved. On the ready device \<open>ex_DevInst\<close>, whose row 9 resolves to no tile type, a
  call with the slave port type 9 (the sentinel) returns \<open>XAIE_ERR_STREAM_PORT\<close>, not
  \<open>XAIE_INVALID_TILE\<close>.
\<close>

theorem ConfigureCct_tile_first_counterexample:
  "IsReady ex_DevInst = XAIE_COMPONENT_IS_READY ex_Globals \<and>
   XAie_GetTileTypefromLoc ex_Globals ex_DevInst \<lparr>Row = 9, Col = 1\<rparr> =
     XAIEGBL_TILE_TYPE_MAX ex_Globals \<and>
   XAie_StrmConnCctEnable ex_Globals (Some ex_DevInst) \<lparr>Row = 9, Col = 1\<rparr> 9 0 CORE 1 [] =
     (Return XAIE_ERR_STREAM_PORT, [])"
  by code_simp

text \<open>
  Claim C9, amended. For a ready device whose location resolves to no tile type, the
  circuit configurator returns \<open>XAIE_INVALID_TILE\<close> and writes nothing whenever both port
  type tags are below the sentinel, whatever the port numbers and \<open>Enable\<close> are; when a
  port type tag is at or beyond the sentinel it returns \<open>XAIE_ERR_STREAM_PORT\<close>, the
  check of the tags coming first.
\<close>

theorem ConfigureCct_unresolvable_tile:
  assumes "IsReady D = XAIE_COMPONENT_IS_READY X"
    and "XAie_GetTileTypefromLoc X D Loc = XAIEGBL_TILE_TYPE_MAX X"
  shows "(Slave < SS_PORT_TYPE_MAX X \<and> Master < SS_PORT_TYPE_MAX X \<longrightarrow>
            XAie_StreamSwitchConfigureCct X (Some D) Loc Slave SlvPortNum Master MstrPortNum
              Enable s = (Return XAIE_INVALID_TILE, s)) \<and>
         (SS_PORT_TYPE_MAX X \<le> Slave \<or> SS_PORT_TYPE_MAX X \<le> Master \<longrightarrow>
            XAie_StreamSwitchConfigureCct X (Some D) Loc Slave SlvPortNum Master MstrPortNum
              Enable s = (Return XAIE_ERR_STREAM_PORT, s))"
  using assms by (auto simp add: XAie_StreamSwitchConfigureCct_def)

theorem ConfigureCct_unresolvable_tile_witness:
  "XAie_StrmConnCctEnable ex_Globals (Some ex_DevInst) \<lparr>Row = 9, Col = 1\<rparr> DMA 7 CORE 200 [] =
     (Return XAIE_INVALID_TILE, []) \<and>
   XAie_StrmConnCctDisable ex_Globals (Some ex_DevInst) \<lparr>Row = 9, Col = 1\<rparr> DMA 0 9 1 [] =
     (Return XAIE_ERR_STREAM_PORT, [])"
proof -
  have ready: "IsReady ex_DevInst = XAIE_COMPONENT_IS_READY ex_Globals"
    and tile: "XAie_GetTileTypefromLoc ex_Globals ex_DevInst \<lparr>Row = 9, Col = 1\<rparr> =
      XAIEGBL_TILE_TYPE_MAX ex_Globals"
    and tags: "DMA < SS_PORT_TYPE_MAX ex_Globals \<and> CORE < SS_PORT_TYPE_MAX ex_Globals"
    and big: "SS_PORT_TYPE_MAX ex_Globals \<le> DMA \<or> SS_PORT_TYPE_MAX ex_Globals \<le> 9"
    by code_simp+
  from ConfigureCct_unresolvable_tile [OF ready tile, of DMA CORE 7 200 XAIE_ENABLE "[]"] tags
    ConfigureCct_unresolvable_tile [OF ready tile, of DMA 9 0 1 XAIE_DISABLE "[]"] big
  show ?thesis
    by (simp add: XAie_StrmConnCctEnable_def XAie_StrmConnCctDisable_def)
qed

section \<open>The port tables are read within their bounds\<close>

lemma StrmPort_at_below_MAX:
  assumes "PortType < M" and "unat M \<le> length Tbl"
  shows "\<exists>P. StrmPort_at Tbl PortType = Some P"
proof -
  from assms(1) have "unat PortType < unat M"
    by (simp add: word_less_nat_alt)
  with assms(2) show ?thesis
    by (simp add: StrmPort_at_def)
qed

lemma builders_in_bounds:
  "StrmPort_at (SlvConfig StrmMod) PortType = Some P \<Longrightarrow>
     XAie_GetSlaveIdx StrmMod PortType PortNum \<noteq> Inl OutOfBounds"
  "StrmPort_at (SlvConfig StrmMod) PortType = Some P \<Longrightarrow>
     XAie_StrmConfigSlv StrmMod PortType PortNum Enable PktEnable \<noteq> Inl OutOfBounds"
  "StrmPort_at (MstrConfig StrmMod) PortType = Some P \<Longrightarrow>
     StrmConfigMstr StrmMod PortType PortNum Enable PktEnable Cfg \<noteq> Inl OutOfBounds"
  by (simp_all add: XAie_GetSlaveIdx_def XAie_StrmConfigSlv_def StrmConfigMstr_def Let_def)

lemma ConfigureCct_in_bounds:
  assumes "\<And>D. DevInst = Some D \<Longrightarrow>
      unat (SS_PORT_TYPE_MAX X) \<le>
        length (MstrConfig (StrmSw D (XAie_GetTileTypefromLoc X D Loc))) \<and>
      unat (SS_PORT_TYPE_MAX X) \<le>
        length (SlvConfig (StrmSw D (XAie_GetTileTypefromLoc X D Loc)))"
  shows "fst (XAie_StreamSwitchConfigureCct X DevInst Loc Slave SlvPortNum Master MstrPortNum
           Enable s) \<noteq> OutOfBounds"
proof (cases DevInst)
  case None
  then show ?thesis
    by (simp add: XAie_StreamSwitchConfigureCct_def)
next
  case (Some D)
  let ?M = "StrmSw D (XAie_GetTileTypefromLoc X D Loc)"
  show ?thesis
  proof (cases "Slave < SS_PORT_TYPE_MAX X \<and> Master < SS_PORT_TYPE_MAX X")
    case True
    with assms [OF Some] obtain PS PM where "StrmPort_at (SlvConfig ?M) Slave = Some PS"
      and "StrmPort_at (MstrConfig ?M) Master = Some PM"
      using StrmPort_at_below_MAX by blast
    then have "XAie_GetSlaveIdx ?M Slave SlvPortNum \<noteq> Inl OutOfBounds"
      and "\<And>Idx. StrmConfigMstr ?M Master MstrPortNum Enable XAIE_DISABLE Idx \<noteq>
        Inl OutOfBounds"
      and "XAie_StrmConfigSlv ?M Slave SlvPortNum Enable XAIE_DISABLE \<noteq> Inl OutOfBounds"
      by (simp_all add: builders_in_bounds)
    with Some show ?thesis
      by (auto simp add: XAie_StreamSwitchConfigureCct_def Let_def
          split: sum.splits prod.splits)
  next
    case False
    with Some show ?thesis
      by (auto simp add: XAie_StreamSwitchConfigureCct_def not_less)
  qed
qed

lemma SlavePortConfig_in_bounds:
  assumes "\<And>D. DevInst = Some D \<Longrightarrow>
      unat (SS_PORT_TYPE_MAX X) \<le>
        length (SlvConfig (StrmSw D (XAie_GetTileTypefromLoc X D Loc)))"
  shows "fst (XAie_StrmSlavePortConfig X DevInst Loc Slave SlvPortNum EnPkt Enable s) \<noteq>
    OutOfBounds"
proof (cases DevInst)
  case None
  then show ?thesis
    by (simp add: XAie_StrmSlavePortConfig_def)
next
  case (Some D)
  let ?M = "StrmSw D (XAie_GetTileTypefromLoc X D Loc)"
  show ?thesis
  proof (cases "Slave < SS_PORT_TYPE_MAX X")
    case True
    with assms [OF Some] obtain PS where "StrmPort_at (SlvConfig ?M) Slave = Some PS"
      using StrmPort_at_below_MAX by blast
    then have "XAie_StrmConfigSlv ?M Slave SlvPortNum EnPkt Enable \<noteq> Inl OutOfBounds"
      by (simp add: builders_in_bounds)
    with Some show ?thesis
      by (auto simp add: XAie_StrmSlavePortConfig_def Let_def split: sum.splits prod.splits)
  next
    case False
    with Some show ?thesis
      by (auto simp add: XAie_StrmSlavePortConfig_def not_less)
  qed
qed

lemma PktSwMstrPortConfig_in_bounds:
  assumes "\<And>D. DevInst = Some D \<Longrightarrow>
      unat (SS_PORT_TYPE_MAX X) \<le>
        length (MstrConfig (StrmSw D (XAie_GetTileTypefromLoc X D Loc)))"
  shows "fst (XAie_StrmPktSwMstrPortConfig X DevInst Loc Master MstrPortNum DropHeader Arbitor
           MSelEn PktEn Enable s) \<noteq> OutOfBounds"
proof (cases DevInst)
  case None
  then show ?thesis
    by (simp add: XAie_StrmPktSwMstrPortConfig_def)
next
  case (Some D)
  let ?M = "StrmSw D (XAie_GetTileTypefromLoc X D Loc)"
  show ?thesis
  proof (cases "Master < SS_PORT_TYPE_MAX X")
    case True
    with assms [OF Some] obtain PM where "StrmPort_at (MstrConfig ?M) Master = Some PM"
      using StrmPort_at_below_MAX by blast
    then have "\<And>Cfg. StrmConfigMstr ?M Master MstrPortNum Enable PktEn Cfg \<noteq> Inl OutOfBounds"
      by (simp add: builders_in_bounds)
    with Some show ?thesis
      by (auto simp add: XAie_StrmPktSwMstrPortConfig_def Let_def
          split: sum.splits prod.splits)
  next
    case False
    with Some show ?thesis
      by (auto simp add: XAie_StrmPktSwMstrPortConfig_def not_less)
  qed
qed

lemma SlaveSlotConfig_in_bounds:
  assumes "\<And>D. DevInst = Some D \<Longrightarrow>
      unat (SS_PORT_TYPE_MAX X) \<le>
        length (SlvConfig (StrmSw D (XAie_GetTileTypefromLoc X D Loc))) \<and>
      unat (SS_PORT_TYPE_MAX X) \<le>
        length (SlvSlotConfig (StrmSw D (XAie_GetTileTypefromLoc X D Loc)))"
  shows "fst (XAie_StrmSlaveSlotConfig X DevInst Loc Slave SlvPortNum SlotNum Pkt MaskVal MSel
           Arbitor Enable s) \<noteq> OutOfBounds"
proof (cases DevInst)
  case None
  then show ?thesis
    by (simp add: XAie_StrmSlaveSlotConfig_def)
next
  case (Some D)
  let ?M = "StrmSw D (XAie_GetTileTypefromLoc X D Loc)"
  show ?thesis
  proof (cases "Slave < SS_PORT_TYPE_MAX X")
    case True
    with assms [OF Some] obtain PS PSlot where "StrmPort_at (SlvConfig ?M) Slave = Some PS"
      and "StrmPort_at (SlvSlotConfig ?M) Slave = Some PSlot"
      using StrmPort_at_below_MAX by blast
    with Some show ?thesis
      by (simp add: XAie_StrmSlaveSlotConfig_def Let_def)
  next
    case False
    with Some show ?thesis
      by (auto simp add: XAie_StrmSlaveSlotConfig_def Let_def not_less)
  qed
qed


lemma tag_beyond_sentinel:
  "SS_PORT_TYPE_MAX X \<le> Slave \<or> SS_PORT_TYPE_MAX X \<le> Master \<Longrightarrow>
     XAie_StreamSwitchConfigureCct X DevInst Loc Slave SlvPortNum Master MstrPortNum Enable s \<in>
       {(Return XAIE_INVALID_ARGS, s), (Return XAIE_ERR_STREAM_PORT, s)}"
  "SS_PORT_TYPE_MAX X \<le> Slave \<Longrightarrow>
     XAie_StrmSlavePortConfig X DevInst Loc Slave SlvPortNum EnPkt Enable s \<in>
       {(Return XAIE_INVALID_ARGS, s), (Return XAIE_ERR_STREAM_PORT, s)}"
  "SS_PORT_TYPE_MAX X \<le> Master \<Longrightarrow>
     XAie_StrmPktSwMstrPortConfig X DevInst Loc Master MstrPortNum DropHeader Arbitor MSelEn
       PktEn Enable s \<in> {(Return XAIE_INVALID_ARGS, s), (Return XAIE_ERR_STREAM_PORT, s)}"
  "SS_PORT_TYPE_MAX X \<le> Slave \<Longrightarrow>
     XAie_StrmSlaveSlotConfig X DevInst Loc Slave SlvPortNum SlotNum Pkt MaskVal MSel Arbitor
       Enable s \<in>
       {(Return XAIE_INVALID_ARGS, s), (Return XAIE_INVALID_TILE, s),
        (Return XAIE_ERR_STREAM_PORT, s)}"
  by (cases DevInst;
      simp add: XAie_StreamSwitchConfigureCct_def XAie_StrmSlavePortConfig_def
        XAie_StrmPktSwMstrPortConfig_def XAie_StrmSlaveSlotConfig_def Let_def)+

text \<open>
  Claim C10. Let the three port tables of the stream switch module of the resolved tile
  type hold at least \<open>SS_PORT_TYPE_MAX\<close> entries, and nothing be known beyond that. Then
  none of the four configurators reads a table out of bounds, whatever the port type
  tags are: every read under a tag is behind a check that the tag is below the sentinel.
  A tag at or beyond the sentinel ends the call with an error code and the bus
  unchanged.
\<close>

theorem port_tables_never_read_out_of_bounds:
  assumes "\<forall>D. DevInst = Some D \<longrightarrow>
      unat (SS_PORT_TYPE_MAX X) \<le>
        length (MstrConfig (StrmSw D (XAie_GetTileTypefromLoc X D Loc))) \<and>
      unat (SS_PORT_TYPE_MAX X) \<le>
        length (SlvConfig (StrmSw D (XAie_GetTileTypefromLoc X D Loc))) \<and>
      unat (SS_PORT_TYPE_MAX X) \<le>
        length (SlvSlotConfig (StrmSw D (XAie_GetTileTypefromLoc X D Loc)))"
  shows "fst (XAie_StreamSwitchConfigureCct X DevInst Loc Slave SlvPortNum Master MstrPortNum
           Enable s) \<noteq> OutOfBounds \<and>
    fst (XAie_StrmSlavePortConfig X DevInst Loc Slave SlvPortNum EnPkt Enable s) \<noteq>
      OutOfBounds \<and>
    fst (XAie_StrmPktSwMstrPortConfig X DevInst Loc Master MstrPortNum DropHeader Arbitor
           MSelEn PktEn Enable s) \<noteq> OutOfBounds \<and>
    fst (XAie_StrmSlaveSlotConfig X DevInst Loc Slave SlvPortNum SlotNum Pkt MaskVal MSel
           Arbitor Enable s) \<noteq> OutOfBounds \<and>
    (SS_PORT_TYPE_MAX X \<le> Slave \<or> SS_PORT_TYPE_MAX X \<le> Master \<longrightarrow>
       XAie_StreamSwitchConfigureCct X DevInst Loc Slave SlvPortNum Master MstrPortNum Enable
         s \<in> {(Return XAIE_INVALID_ARGS, s), (Return XAIE_ERR_STREAM_PORT, s)}) \<and>
    (SS_PORT_TYPE_MAX X \<le> Slave \<longrightarrow>
       XAie_StrmSlavePortConfig X DevInst Loc Slave SlvPortNum EnPkt Enable s \<in>
         {(Return XAIE_INVALID_ARGS, s), (Return XAIE_ERR_STREAM_PORT, s)}) \<and>
    (SS_PORT_TYPE_MAX X \<le> Master \<longrightarrow>
       XAie_StrmPktSwMstrPortConfig X DevInst Loc Master MstrPortNum DropHeader Arbitor MSelEn
         PktEn Enable s \<in> {(Return XAIE_INVALID_ARGS, s), (Return XAIE_ERR_STREAM_PORT, s)}) \<and>
    (SS_PORT_TYPE_MAX X \<le> Slave \<longrightarrow>
       XAie_StrmSlaveSlotConfig X DevInst Loc Slave SlvPortNum SlotNum Pkt MaskVal MSel Arbitor
         Enable s \<in>
         {(Return XAIE_INVALID_ARGS, s), (Return XAIE_INVALID_TILE, s),
          (Return XAIE_ERR_STREAM_PORT, s)})"
proof (intro conjI impI)
  show "fst (XAie_StreamSwitchConfigureCct X DevInst Loc Slave SlvPortNum Master MstrPortNum
           Enable s) \<noteq> OutOfBounds"
    using assms by (intro ConfigureCct_in_bounds) blast
  show "fst (XAie_StrmSlavePortConfig X DevInst Loc Slave SlvPortNum EnPkt Enable s) \<noteq>
      OutOfBounds"
    using assms by (intro SlavePortConfig_in_bounds) blast
  show "fst (XAie_StrmPktSwMstrPortConfig X DevInst Loc Master MstrPortNum DropHeader Arbitor
           MSelEn PktEn Enable s) \<noteq> OutOfBounds"
    using assms by (intro PktSwMstrPortConfig_in_bounds) blast
  show "fst (XAie_StrmSlaveSlotConfig X DevInst Loc Slave SlvPortNum SlotNum Pkt MaskVal MSel
           Arbitor Enable s) \<noteq> OutOfBounds"
    using assms by (intro SlaveSlotConfig_in_bounds) blast
qed (simp_all only: tag_beyond_sentinel)

theorem port_tables_never_read_out_of_bounds_witness:
  "fst (XAie_StrmConnCctEnable ex_Globals (Some ex_DevInst) \<lparr>Row = 1, Col = 1\<rparr> 8 0 8 0 []) \<noteq>
     OutOfBounds \<and>
   XAie_StrmConnCctEnable ex_Globals (Some ex_DevInst) \<lparr>Row = 1, Col = 1\<rparr> 9 0 CORE 0 [] \<in>
     {(Return XAIE_INVALID_ARGS, []), (Return XAIE_ERR_STREAM_PORT, [])} \<and>
   fst (XAie_StrmPktSwSlaveSlotEnable ex_Globals (Some ex_DevInst) \<lparr>Row = 1, Col = 1\<rparr>
     0xFFFFFFFF 0 0 \<lparr>PktId = 0, PktType = 0\<rparr> 0 0 0 []) \<noteq> OutOfBounds"
proof -
  let ?L = "\<lparr>Row = 1, Col = 1\<rparr>"
  have tbl: "unat (SS_PORT_TYPE_MAX ex_Globals) \<le> length (MstrConfig ex_StrmMod) \<and>
      unat (SS_PORT_TYPE_MAX ex_Globals) \<le> length (SlvConfig ex_StrmMod) \<and>
      unat (SS_PORT_TYPE_MAX ex_Globals) \<le> length (SlvSlotConfig ex_StrmMod)"
    by code_simp
  have len: "\<forall>D. Some ex_DevInst = Some D \<longrightarrow>
      unat (SS_PORT_TYPE_MAX ex_Globals) \<le>
        length (MstrConfig (StrmSw D (XAie_GetTileTypefromLoc ex_Globals D ?L))) \<and>
      unat (SS_PORT_TYPE_MAX ex_Globals) \<le>
        length (SlvConfig (StrmSw D (XAie_GetTileTypefromLoc ex_Globals D ?L))) \<and>
      unat (SS_PORT_TYPE_MAX ex_Globals) \<le>
        length (SlvSlotConfig (StrmSw D (XAie_GetTileTypefromLoc ex_Globals D ?L)))"
  proof (intro allI impI)
    fix D
    assume "Some ex_DevInst = Some D"
    then have "StrmSw D (XAie_GetTileTypefromLoc ex_Globals D ?L) = ex_StrmMod"
      by (auto simp add: ex_DevInst_def)
    with tbl show "unat (SS_PORT_TYPE_MAX ex_Globals) \<le>
        length (MstrConfig (StrmSw D (XAie_GetTileTypefromLoc ex_Globals D ?L))) \<and>
      unat (SS_PORT_TYPE_MAX ex_Globals) \<le>
        length (SlvConfig (StrmSw D (XAie_GetTileTypefromLoc ex_Globals D ?L))) \<and>
      unat (SS_PORT_TYPE_MAX ex_Globals) \<le>
        length (SlvSlotConfig (StrmSw D (XAie_GetTileTypefromLoc ex_Globals D ?L)))"
      by simp
  qed
  have big: "SS_PORT_TYPE_MAX ex_Globals \<le> 9 \<or> SS_PORT_TYPE_MAX ex_Globals \<le> CORE"
    by code_simp
  note inb = port_tables_never_read_out_of_bounds [of "Some ex_DevInst" ex_Globals ?L, OF len]
  have "fst (XAie_StreamSwitchConfigureCct ex_Globals (Some ex_DevInst) ?L 8 0 8 0
      XAIE_ENABLE []) \<noteq> OutOfBounds"
    by (rule inb [THEN conjunct1])
  moreover have "XAie_StreamSwitchConfigureCct ex_Globals (Some ex_DevInst) ?L 9 0 CORE 0
      XAIE_ENABLE [] \<in> {(Return XAIE_INVALID_ARGS, []), (Return XAIE_ERR_STREAM_PORT, [])}"
    by (rule inb [THEN conjunct2, THEN conjunct2, THEN conjunct2, THEN conjunct2,
          THEN conjunct1, THEN mp, OF big])
  moreover have "fst (XAie_StrmSlaveSlotConfig ex_Globals (Some ex_DevInst) ?L 0xFFFFFFFF 0 0
      \<lparr>PktId = 0, PktType = 0\<rparr> 0 0 0 XAIE_ENABLE []) \<noteq> OutOfBounds"
    by (rule inb [THEN conjunct2, THEN conjunct2, THEN conjunct2, THEN conjunct1])
  ultimately show ?thesis
    by (simp only: XAie_StrmConnCctEnable_def XAie_StrmPktSwSlaveSlotEnable_def simp_thms)
qed

end
